theory Spec2Isabelle
  imports Complex_Main "HOL-Library.Multiset"
begin

section \<open>Data model of the trading game (api/index.py)\<close>

text \<open>
  The game state of the source is a tree of Python dictionaries and lists that the
  request handlers mutate in place. It is embedded as records, and each handler as a
  function that takes the state and returns the state it leaves behind together with
  its outcome. Python numbers (prices, cash, quantities, clock readings) are embedded
  as exact reals in the handlers, whose definitions restate the formulas of the source;
  the rounding of IEEE doubles is modelled apart, in the section on the doubles of the
  program, for the one claim that it decides. Every value the source
  obtains from its environment (a reading of \<^verbatim>\<open>time.time()\<close>, a draw of
  \<^verbatim>\<open>random.random()\<close>, the pick of \<^verbatim>\<open>random.choice\<close>) is an argument of the
  function that consumes it.
\<close>

datatype asset_type = STOCK | CRYPTO | BOND | ETF

datatype phase = PRE_MATCH | PLAYING | FINISHED

datatype tx_type = BUY | SELL

record asset =
  asset_id :: string
  asset_name :: string
  asset_type :: asset_type
  baseVolatility :: real
  trendBias :: string
  currentPrice :: real
  history :: "real list"

record holding =
  assetId :: string
  quantity :: real
  avgBuyPrice :: real

record power_up =
  power_up_id :: string
  power_up_name :: string
  power_up_description :: string
  usesLeft :: int

record transaction =
  tx_round :: int
  tx_type :: tx_type
  tx_assetId :: string
  tx_assetType :: asset_type
  tx_amount :: real
  tx_price :: real
  tx_totalValue :: real
  eventActive :: "string option"
  sentimentAtTime :: int

record player =
  player_id :: string
  player_name :: string
  cash :: real
  holdings :: "holding list"
  riskScore :: int
  powerUps :: "power_up list"
  totalValue :: real
  ready :: bool
  transactionLog :: "transaction list"
  avatarId :: "string option"
  strategyId :: "string option"

text \<open>
  No handler of the source ever builds a market event; \<^verbatim>\<open>update_prices\<close> and the
  trade handlers read three keys of it (\<^verbatim>\<open>id\<close>, \<^verbatim>\<open>impact\<close>,
  \<^verbatim>\<open>volatility_multiplier\<close>), which are the fields of the record. An absent
  \<^verbatim>\<open>impact\<close> dictionary is \<open>None\<close>; an absent multiplier is \<open>None\<close>.
\<close>

record market_event =
  event_id :: string
  impact :: "(asset_type \<Rightarrow> real option) option"
  volatility_multiplier :: "real option"

record scenario =
  scenario_id :: string
  scenario_title :: string
  scenario_description :: string
  scenario_effect :: string

record game_state =
  game_id :: string
  players :: "player list"
  assets :: "asset list"
  currentRound :: int
  maxRounds :: int
  activeEvent :: "market_event option"
  phase :: phase
  subPhase :: string
  timeRemaining :: int
  activeAssetType :: string
  activeScenario :: "scenario option"
  fearZoneActive :: bool
  sentiment :: "asset_type \<Rightarrow> int"
  roundStartTime :: "real option"
  lastUpdate :: real

datatype error =
  NameRequired
  | InvalidRequest
  | InsufficientFunds
  | InsufficientHoldings
  | PlayerNotFound
  | PowerUpNotAvailable
  | GameNotFinished
  | ZeroDivisionError
  | KeyError

datatype outcome = Ok | Failed error

subsection \<open>Constants\<close>

definition GAME_ROUNDS :: int where
  "GAME_ROUNDS = 5"

definition STARTING_CASH :: real where
  "STARTING_CASH = 10000"

definition TOTAL_FRAMES :: int where
  "TOTAL_FRAMES = 35"

definition INITIAL_ASSETS :: "asset list" where
  "INITIAL_ASSETS =
    [\<lparr>asset_id = ''AAPL'', asset_name = ''Apple Inc.'', asset_type = STOCK,
      baseVolatility = 8 / 10, trendBias = ''UP'', currentPrice = 150, history = [150]\<rparr>,
     \<lparr>asset_id = ''BTC'', asset_name = ''Bitcoin'', asset_type = CRYPTO,
      baseVolatility = 25 / 10, trendBias = ''SIDEWAYS'', currentPrice = 45000,
      history = [45000]\<rparr>,
     \<lparr>asset_id = ''GOVT'', asset_name = ''Government Bonds'', asset_type = BOND,
      baseVolatility = 3 / 10, trendBias = ''SIDEWAYS'', currentPrice = 100, history = [100]\<rparr>,
     \<lparr>asset_id = ''SPY'', asset_name = ''S&P 500 ETF'', asset_type = ETF,
      baseVolatility = 6 / 10, trendBias = ''UP'', currentPrice = 400, history = [400]\<rparr>]"

definition SCENARIOS :: "scenario list" where
  "SCENARIOS =
    [\<lparr>scenario_id = ''BULL_RUN'', scenario_title = ''Bull Market Rally'',
      scenario_description = ''Markets are soaring!'',
      scenario_effect = ''Increased volatility''\<rparr>,
     \<lparr>scenario_id = ''BEAR_CRASH'', scenario_title = ''Bear Market Crash'',
      scenario_description = ''Markets are plummeting!'',
      scenario_effect = ''High risk environment''\<rparr>,
     \<lparr>scenario_id = ''SIDEWAYS'', scenario_title = ''Sideways Market'',
      scenario_description = ''Markets are stable'',
      scenario_effect = ''Low volatility''\<rparr>]"

subsection \<open>Python built-ins used by the source\<close>

text \<open>\<^verbatim>\<open>int(x)\<close> on a float truncates towards zero.\<close>

definition py_int :: "real \<Rightarrow> int" where
  "py_int x = (if 0 \<le> x then \<lfloor>x\<rfloor> else \<lceil>x\<rceil>)"

text \<open>\<^verbatim>\<open>round(x)\<close> with one argument rounds to the nearest integer, a tie to the even one.\<close>

definition py_round :: "real \<Rightarrow> int" where
  "py_round x =
    (let f = \<lfloor>x\<rfloor>; d = x - of_int f
     in if d < 1 / 2 then f
        else if 1 / 2 < d then f + 1
        else if even f then f else f + 1)"

text \<open>
  A dictionary found by \<^verbatim>\<open>next(... for x in xs if ...)\<close> and then assigned to is the
  first matching element of the list, changed in place.
\<close>

fun update_first :: "('a \<Rightarrow> bool) \<Rightarrow> ('a \<Rightarrow> 'a) \<Rightarrow> 'a list \<Rightarrow> 'a list" where
  "update_first P f [] = []"
| "update_first P f (x # xs) = (if P x then f x # xs else x # update_first P f xs)"

text \<open>Decimal rendering of an integer, as an f-string does it.\<close>

fun string_of_nat :: "nat \<Rightarrow> string" where
  "string_of_nat n =
    (if n < 10 then [''0123456789'' ! n]
     else string_of_nat (n div 10) @ [''0123456789'' ! (n mod 10)])"

declare string_of_nat.simps [simp del]

definition string_of_int :: "int \<Rightarrow> string" where
  "string_of_int i =
    (if i < 0 then ''-'' @ string_of_nat (nat (- i)) else string_of_nat (nat i))"

subsection \<open>Creating a game and a player\<close>

definition create_new_game :: "string \<Rightarrow> real \<Rightarrow> game_state" where
  "create_new_game gid now =
    \<lparr>game_id = gid, players = [], assets = INITIAL_ASSETS, currentRound = 0,
     maxRounds = GAME_ROUNDS, activeEvent = None, phase = PRE_MATCH, subPhase = ''INTRO'',
     timeRemaining = 0, activeAssetType = ''ALL'', activeScenario = None,
     fearZoneActive = False, sentiment = (\<lambda>_. 0), roundStartTime = None,
     lastUpdate = now\<rparr>"

definition create_player :: "string \<Rightarrow> string \<Rightarrow> player" where
  "create_player pid name =
    \<lparr>player_id = pid, player_name = name, cash = STARTING_CASH, holdings = [],
     riskScore = 0,
     powerUps =
       [\<lparr>power_up_id = ''future-glimpse'', power_up_name = ''Risk Shield'',
          power_up_description = ''-20 Risk Score'', usesLeft = 1\<rparr>,
        \<lparr>power_up_id = ''market-freeze'', power_up_name = ''Bailout'',
          power_up_description = ''+$1000 Cash'', usesLeft = 1\<rparr>],
     totalValue = STARTING_CASH, ready = False, transactionLog = [], avatarId = None,
     strategyId = None\<rparr>"

subsection \<open>Risk score\<close>

text \<open>
  The loop of \<^verbatim>\<open>calculate_risk\<close> over the holdings, with its two accumulators
  \<^verbatim>\<open>(total_risk, total_portfolio_value)\<close>. A holding whose asset is not in the list
  is skipped.
\<close>

fun risk_totals :: "asset list \<Rightarrow> holding list \<Rightarrow> real \<times> real \<Rightarrow> real \<times> real" where
  "risk_totals as [] acc = acc"
| "risk_totals as (h # hs) (total_risk, total_portfolio_value) =
    (case find (\<lambda>a. asset_id a = assetId h) as of
       None \<Rightarrow> risk_totals as hs (total_risk, total_portfolio_value)
     | Some a \<Rightarrow>
         (let val = quantity h * currentPrice a
          in risk_totals as hs
               (total_risk + val * baseVolatility a * 500, total_portfolio_value + val)))"

definition calculate_risk :: "player \<Rightarrow> asset list \<Rightarrow> int" where
  "calculate_risk p as =
    (let (total_risk, total_portfolio_value) = risk_totals as (holdings p) (0, 0)
     in if 0 < total_portfolio_value then
          (let risk_score = min 100 (py_round (total_risk / total_portfolio_value * 100))
           in if strategyId p = Some ''SAFETY_FIRST'' then max 0 (risk_score - 10)
              else risk_score)
        else 0)"

subsection \<open>Price update\<close>

text \<open>
  The three terms of \<^verbatim>\<open>change\<close> in \<^verbatim>\<open>update_prices\<close>. A dictionary is true when it
  is not empty and a number when it is not zero, so an empty \<^verbatim>\<open>impact\<close> dictionary and
  an \<^verbatim>\<open>impact\<close> entry of zero both add nothing, and a multiplier of zero is replaced
  by \<open>1\<close>.
\<close>

definition event_impact :: "game_state \<Rightarrow> asset \<Rightarrow> real" where
  "event_impact gs a =
    (case activeEvent gs of
       None \<Rightarrow> 0
     | Some ev \<Rightarrow>
         (case impact ev of
            None \<Rightarrow> 0
          | Some m \<Rightarrow>
              (case m (asset_type a) of
                 None \<Rightarrow> 0
               | Some i \<Rightarrow> if i \<noteq> 0 then i / of_int TOTAL_FRAMES else 0)))"

definition vol_multiplier :: "game_state \<Rightarrow> real" where
  "vol_multiplier gs =
    (case activeEvent gs of
       None \<Rightarrow> 1
     | Some ev \<Rightarrow>
         (case volatility_multiplier ev of
            None \<Rightarrow> 1
          | Some v \<Rightarrow> if v \<noteq> 0 then v else 1))"

definition random_movement :: "game_state \<Rightarrow> asset \<Rightarrow> real \<Rightarrow> real" where
  "random_movement gs a r = (r - 5 / 10) * (15 / 1000) * baseVolatility a * vol_multiplier gs"

definition sentiment_drift :: "game_state \<Rightarrow> asset \<Rightarrow> real" where
  "sentiment_drift gs a =
    (of_int (sentiment gs (asset_type a)) / 100) * ((5 / 100) / of_int TOTAL_FRAMES)"

definition price_change :: "game_state \<Rightarrow> asset \<Rightarrow> real \<Rightarrow> real" where
  "price_change gs a r = event_impact gs a + random_movement gs a r + sentiment_drift gs a"

text \<open>
  One asset: the new price is appended to the history, and the oldest entry is popped
  when the history has become longer than 50.
\<close>

definition update_asset :: "game_state \<Rightarrow> real \<Rightarrow> asset \<Rightarrow> asset" where
  "update_asset gs r a =
    (let p = currentPrice a * (1 + price_change gs a r);
         h = history a @ [p]
     in a\<lparr>currentPrice := p, history := (if 50 < length h then tl h else h)\<rparr>)"

text \<open>
  The loop over the assets. The draws of \<^verbatim>\<open>random.random()\<close> are the function
  \<open>rnd\<close>: the asset at position \<open>i\<close> uses \<open>rnd i\<close>.
\<close>

fun update_assets :: "game_state \<Rightarrow> (nat \<Rightarrow> real) \<Rightarrow> asset list \<Rightarrow> asset list" where
  "update_assets gs rnd [] = []"
| "update_assets gs rnd (a # as) =
    update_asset gs (rnd 0) a # update_assets gs (\<lambda>i. rnd (Suc i)) as"

fun holdings_value :: "asset list \<Rightarrow> holding list \<Rightarrow> real \<Rightarrow> real" where
  "holdings_value as [] acc = acc"
| "holdings_value as (h # hs) acc =
    (case find (\<lambda>a. asset_id a = assetId h) as of
       None \<Rightarrow> holdings_value as hs acc
     | Some a \<Rightarrow> holdings_value as hs (acc + quantity h * currentPrice a))"

definition revalue_player :: "asset list \<Rightarrow> player \<Rightarrow> player" where
  "revalue_player as p =
    (let p1 = p\<lparr>totalValue := cash p + holdings_value as (holdings p) 0\<rparr>
     in p1\<lparr>riskScore := calculate_risk p1 as\<rparr>)"

definition update_prices :: "game_state \<Rightarrow> (nat \<Rightarrow> real) \<Rightarrow> game_state" where
  "update_prices gs rnd =
    (let as = update_assets gs rnd (assets gs)
     in gs\<lparr>assets := as, players := map (revalue_player as) (players gs)\<rparr>)"

section \<open>The handlers, on one session\<close>

text \<open>
  Each function below is the body of one route of the source, applied to the session
  that \<^verbatim>\<open>get_game_state\<close> returned. A field of the request that is read with
  \<^verbatim>\<open>data.get\<close> is an \<open>option\<close>: \<open>None\<close> when the request does not carry a string
  there, which then equals no identifier of the state.
\<close>

subsection \<open>join\<close>

text \<open>
  The two clock readings of \<^verbatim>\<open>join_game\<close>: \<open>t_id\<close> goes into the identifier of a
  new player, \<open>t_upd\<close> into \<^verbatim>\<open>lastUpdate\<close>.
\<close>

definition join_game :: "game_state \<Rightarrow> string \<Rightarrow> real \<Rightarrow> real \<Rightarrow> string \<times> game_state" where
  "join_game gs name t_id t_upd =
    (case find (\<lambda>p. player_name p = name) (players gs) of
       Some existing_player \<Rightarrow> (player_id existing_player, gs\<lparr>lastUpdate := t_upd\<rparr>)
     | None \<Rightarrow>
         (let pid = ''player-'' @ string_of_nat (length (players gs)) @ ''-''
                      @ string_of_int (py_int t_id)
          in (pid, gs\<lparr>players := players gs @ [create_player pid name],
                       lastUpdate := t_upd\<rparr>)))"

subsection \<open>state poll\<close>

text \<open>
  \<^verbatim>\<open>get_state\<close> has two parts. Lines 300 to 307 run without the lock of the session:
  they read the phase and the start of the round, store \<^verbatim>\<open>timeRemaining\<close> and may
  update the prices; their result is the state and the local variable
  \<^verbatim>\<open>time_remaining\<close> (\<open>None\<close> when the branch is not entered). Lines 311 to 318 run
  with the lock held, when \<^verbatim>\<open>time_remaining <= 0\<close>; \<open>now'\<close> is the clock reading
  of line 314. The test of line 300 takes a start of the round of \<open>0\<close> for unset, as
  Python does with any number that is zero.
\<close>

definition get_state_observe ::
  "game_state \<Rightarrow> real \<Rightarrow> (nat \<Rightarrow> real) \<Rightarrow> game_state \<times> int option" where
  "get_state_observe gs now rnd =
    (case roundStartTime gs of
       None \<Rightarrow> (gs, None)
     | Some t0 \<Rightarrow>
         if phase gs = PLAYING \<and> t0 \<noteq> 0 then
           (let elapsed = now - t0;
                time_remaining = max 0 (TOTAL_FRAMES - py_int elapsed);
                gs1 = gs\<lparr>timeRemaining := time_remaining\<rparr>
            in (if time_remaining < 30 then update_prices gs1 rnd else gs1,
                Some time_remaining))
         else (gs, None))"

definition get_state_advance :: "game_state \<Rightarrow> real \<Rightarrow> game_state" where
  "get_state_advance gs now' =
    (if currentRound gs < maxRounds gs then
       gs\<lparr>currentRound := currentRound gs + 1, roundStartTime := Some now',
          timeRemaining := TOTAL_FRAMES\<rparr>
     else gs\<lparr>phase := FINISHED, roundStartTime := None\<rparr>)"

definition get_state :: "game_state \<Rightarrow> real \<Rightarrow> real \<Rightarrow> (nat \<Rightarrow> real) \<Rightarrow> game_state" where
  "get_state gs now now' rnd =
    (case get_state_observe gs now rnd of
       (gs2, None) \<Rightarrow> gs2
     | (gs2, Some time_remaining) \<Rightarrow>
         if time_remaining \<le> 0 then get_state_advance gs2 now' else gs2)"

text \<open>
  Two polls of the same session by two threads, in the schedule that the source
  allows because the test \<^verbatim>\<open>time_remaining <= 0\<close> is made before the lock is taken:
  both threads run their unlocked part, then each takes the lock in turn.
\<close>

definition get_state_interleaved ::
  "game_state \<Rightarrow> real \<Rightarrow> real \<Rightarrow> (nat \<Rightarrow> real) \<Rightarrow> real \<Rightarrow> real \<Rightarrow> (nat \<Rightarrow> real) \<Rightarrow> game_state" where
  "get_state_interleaved gs nowA nowA' rndA nowB nowB' rndB =
    (let (gs1, trA) = get_state_observe gs nowA rndA;
         (gs2, trB) = get_state_observe gs1 nowB rndB;
         gs3 = (case trA of
                  None \<Rightarrow> gs2
                | Some t \<Rightarrow> if t \<le> 0 then get_state_advance gs2 nowA' else gs2)
     in (case trB of
           None \<Rightarrow> gs3
         | Some t \<Rightarrow> if t \<le> 0 then get_state_advance gs3 nowB' else gs3))"

subsection \<open>start, avatar, strategy\<close>

text \<open>
  \<open>k\<close> is the pick of \<^verbatim>\<open>random.choice(SCENARIOS)\<close>; \<open>t1\<close> and \<open>t2\<close> are the clock
  readings of lines 336 and 342.
\<close>

definition start_game :: "game_state \<Rightarrow> real \<Rightarrow> nat \<Rightarrow> real \<Rightarrow> game_state" where
  "start_game gs t1 k t2 =
    (if phase gs = PRE_MATCH then
       gs\<lparr>phase := PLAYING, currentRound := 1, roundStartTime := Some t1,
          timeRemaining := TOTAL_FRAMES,
          activeScenario := Some (SCENARIOS ! (k mod length SCENARIOS)),
          lastUpdate := t2\<rparr>
     else gs)"

definition is_player :: "string option \<Rightarrow> player \<Rightarrow> bool" where
  "is_player pid p = (Some (player_id p) = pid)"

definition select_avatar ::
  "game_state \<Rightarrow> string option \<Rightarrow> string option \<Rightarrow> real \<Rightarrow> game_state" where
  "select_avatar gs pid avatar_id now =
    (case find (is_player pid) (players gs) of
       None \<Rightarrow> gs
     | Some _ \<Rightarrow>
         gs\<lparr>players := update_first (is_player pid) (\<lambda>p. p\<lparr>avatarId := avatar_id\<rparr>) (players gs),
            lastUpdate := now\<rparr>)"

definition select_strategy ::
  "game_state \<Rightarrow> string option \<Rightarrow> string option \<Rightarrow> real \<Rightarrow> game_state" where
  "select_strategy gs pid strategy_id now =
    (case find (is_player pid) (players gs) of
       None \<Rightarrow> gs
     | Some _ \<Rightarrow>
         gs\<lparr>players :=
              update_first (is_player pid) (\<lambda>p. p\<lparr>strategyId := strategy_id\<rparr>) (players gs),
            lastUpdate := now\<rparr>)"

subsection \<open>buy and sell\<close>

definition is_holding :: "string \<Rightarrow> holding \<Rightarrow> bool" where
  "is_holding aid h = (assetId h = aid)"

definition trade_record ::
  "game_state \<Rightarrow> tx_type \<Rightarrow> asset \<Rightarrow> real \<Rightarrow> real \<Rightarrow> transaction" where
  "trade_record gs ty a amount tv =
    \<lparr>tx_round = currentRound gs, tx_type = ty, tx_assetId = asset_id a,
     tx_assetType = asset_type a, tx_amount = amount, tx_price = currentPrice a,
     tx_totalValue = tv,
     eventActive = (case activeEvent gs of None \<Rightarrow> None | Some ev \<Rightarrow> Some (event_id ev)),
     sentimentAtTime = sentiment gs (asset_type a)\<rparr>"

text \<open>
  \<^verbatim>\<open>buy_asset\<close>, lines 397 to 434. The division of line 411 raises
  \<^verbatim>\<open>ZeroDivisionError\<close> when the new quantity is zero; by then lines 405 and 410 have
  changed the cash and the quantity, and the state keeps both changes.
\<close>

definition buy_asset ::
  "game_state \<Rightarrow> string option \<Rightarrow> string option \<Rightarrow> real \<Rightarrow> real \<Rightarrow> outcome \<times> game_state" where
  "buy_asset gs pid aid amount now =
    (case find (is_player pid) (players gs) of
       None \<Rightarrow> (Failed InvalidRequest, gs)
     | Some p \<Rightarrow>
      (case find (\<lambda>a. Some (asset_id a) = aid) (assets gs) of
         None \<Rightarrow> (Failed InvalidRequest, gs)
       | Some a \<Rightarrow>
          if phase gs \<noteq> PLAYING then (Failed InvalidRequest, gs)
          else
            (let cost = amount * currentPrice a
             in if cost \<le> cash p then
                  (let p1 = p\<lparr>cash := cash p - cost\<rparr>
                   in case find (is_holding (asset_id a)) (holdings p1) of
                        Some h \<Rightarrow>
                          (let total_cost = quantity h * avgBuyPrice h + cost;
                               q = quantity h + amount
                           in if q = 0 then
                                (Failed ZeroDivisionError,
                                 gs\<lparr>players := update_first (is_player pid)
                                    (\<lambda>_. p1\<lparr>holdings := update_first (is_holding (asset_id a))
                                       (\<lambda>h. h\<lparr>quantity := q\<rparr>) (holdings p1)\<rparr>)
                                    (players gs)\<rparr>)
                              else
                                (Ok,
                                 gs\<lparr>players := update_first (is_player pid)
                                    (\<lambda>_. p1\<lparr>holdings := update_first (is_holding (asset_id a))
                                       (\<lambda>h. h\<lparr>quantity := q, avgBuyPrice := total_cost / q\<rparr>)
                                       (holdings p1),
                                      transactionLog := transactionLog p1
                                        @ [trade_record gs BUY a amount cost]\<rparr>)
                                    (players gs),
                                   lastUpdate := now\<rparr>))
                      | None \<Rightarrow>
                          (Ok,
                           gs\<lparr>players := update_first (is_player pid)
                              (\<lambda>_. p1\<lparr>holdings := holdings p1
                                   @ [\<lparr>assetId = asset_id a, quantity = amount,
                                       avgBuyPrice = currentPrice a\<rparr>],
                                 transactionLog := transactionLog p1
                                   @ [trade_record gs BUY a amount cost]\<rparr>)
                              (players gs),
                             lastUpdate := now\<rparr>))
                else (Failed InsufficientFunds, gs))))"

text \<open>\<^verbatim>\<open>sell_asset\<close>, lines 449 to 479.\<close>

definition sell_asset ::
  "game_state \<Rightarrow> string option \<Rightarrow> string option \<Rightarrow> real \<Rightarrow> real \<Rightarrow> outcome \<times> game_state" where
  "sell_asset gs pid aid amount now =
    (case find (is_player pid) (players gs) of
       None \<Rightarrow> (Failed InvalidRequest, gs)
     | Some p \<Rightarrow>
      (case find (\<lambda>a. Some (asset_id a) = aid) (assets gs) of
         None \<Rightarrow> (Failed InvalidRequest, gs)
       | Some a \<Rightarrow>
          if phase gs \<noteq> PLAYING then (Failed InvalidRequest, gs)
          else
            (case find (is_holding (asset_id a)) (holdings p) of
               None \<Rightarrow> (Failed InsufficientHoldings, gs)
             | Some h \<Rightarrow>
                 if amount \<le> quantity h then
                   (let revenue = amount * currentPrice a;
                        q = quantity h - amount;
                        hs1 = update_first (is_holding (asset_id a))
                                (\<lambda>h. h\<lparr>quantity := q\<rparr>) (holdings p);
                        hs2 = (if q \<le> 0
                               then filter (\<lambda>h. assetId h \<noteq> asset_id a) hs1 else hs1)
                    in (Ok,
                        gs\<lparr>players := update_first (is_player pid)
                           (\<lambda>_. p\<lparr>cash := cash p + revenue, holdings := hs2,
                                 transactionLog := transactionLog p
                                   @ [trade_record gs SELL a amount revenue]\<rparr>)
                           (players gs),
                          lastUpdate := now\<rparr>))
                 else (Failed InsufficientHoldings, gs))))"

subsection \<open>power-ups\<close>

definition is_power_up :: "string option \<Rightarrow> power_up \<Rightarrow> bool" where
  "is_power_up puid pu = (Some (power_up_id pu) = puid)"

definition use_powerup ::
  "game_state \<Rightarrow> string option \<Rightarrow> string option \<Rightarrow> real \<Rightarrow> outcome \<times> game_state" where
  "use_powerup gs pid puid now =
    (case find (is_player pid) (players gs) of
       None \<Rightarrow> (Failed PlayerNotFound, gs)
     | Some p \<Rightarrow>
        (case find (is_power_up puid) (powerUps p) of
           None \<Rightarrow> (Failed PowerUpNotAvailable, gs)
         | Some pu \<Rightarrow>
             if usesLeft pu \<le> 0 then (Failed PowerUpNotAvailable, gs)
             else
               (let p1 = p\<lparr>powerUps := update_first (is_power_up puid)
                             (\<lambda>u. u\<lparr>usesLeft := usesLeft u - 1\<rparr>) (powerUps p)\<rparr>;
                    p2 = (if puid = Some ''future-glimpse''
                          then p1\<lparr>riskScore := max 0 (riskScore p1 - 20)\<rparr>
                          else if puid = Some ''market-freeze''
                          then p1\<lparr>cash := cash p1 + 1000\<rparr>
                          else p1)
                in (Ok,
                    gs\<lparr>players := update_first (is_player pid) (\<lambda>_. p2) (players gs),
                       lastUpdate := now\<rparr>))))"

subsection \<open>results\<close>

record result =
  res_playerId :: string
  res_playerName :: string
  finalValue :: real
  res_riskScore :: int
  roi :: real
  riskAdjustedScore :: real
  rank :: nat
  insights :: "string list"
  whatYouDidWell :: "string list"
  mistakesAndOpportunities :: "string list"
  improvementSuggestions :: "string list"
  learningCards :: "string list"

definition player_result :: "player \<Rightarrow> result" where
  "player_result p =
    (let initial_value = STARTING_CASH;
         final_value0 = totalValue p;
         final_value =
           (if strategyId p = Some ''DIVERSIFIER''
               \<and> 4 \<le> length (remdups (map assetId (holdings p)))
            then final_value0 + final_value0 * (5 / 100) else final_value0);
         r = ((final_value - initial_value) / initial_value) * 100;
         risk_adjusted_score = r - of_int (riskScore p) * (5 / 10)
     in \<lparr>res_playerId = player_id p, res_playerName = player_name p,
         finalValue = final_value, res_riskScore = riskScore p, roi = r,
         riskAdjustedScore = risk_adjusted_score, rank = 0,
         insights = [''Great job!'', ''Keep learning!''],
         whatYouDidWell = [''You participated actively''],
         mistakesAndOpportunities = [''Consider diversifying more''],
         improvementSuggestions = [''Try different strategies''],
         learningCards = []\<rparr>)"

text \<open>
  \<^verbatim>\<open>results.sort(key=..., reverse=True)\<close> is a stable sort into descending order of
  the key: elements with equal keys keep their order. That is the stable ascending sort
  \<open>sort_key\<close> on the negated key.
\<close>

definition sort_results :: "result list \<Rightarrow> result list" where
  "sort_results rs = sort_key (\<lambda>r. - riskAdjustedScore r) rs"

definition assign_ranks :: "result list \<Rightarrow> result list" where
  "assign_ranks rs = map (\<lambda>(i, r). r\<lparr>rank := i + 1\<rparr>) (enumerate 0 rs)"

definition get_results :: "game_state \<Rightarrow> error + result list" where
  "get_results gs =
    (if phase gs \<noteq> FINISHED then Inl GameNotFinished
     else Inr (assign_ranks (sort_results (map player_result (players gs)))))"

section \<open>The registry of sessions and the routes\<close>

text \<open>
  The two global dictionaries of the source. Of a lock only its presence matters here:
  \<^verbatim>\<open>game_locks[game_id]\<close> raises \<^verbatim>\<open>KeyError\<close> for a game that has no lock, which
  happens after \<^verbatim>\<open>reset_game\<close> has created a session that \<^verbatim>\<open>get_game_state\<close>
  never saw.
\<close>

record registry =
  game_states :: "string \<Rightarrow> game_state option"
  game_locks :: "string set"

definition empty_registry :: registry where
  "empty_registry = \<lparr>game_states = (\<lambda>_. None), game_locks = {}\<rparr>"

definition get_game_state :: "registry \<Rightarrow> string \<Rightarrow> real \<Rightarrow> registry \<times> game_state" where
  "get_game_state reg gid now =
    (case game_states reg gid of
       Some gs \<Rightarrow> (reg, gs)
     | None \<Rightarrow>
         (let gs = create_new_game gid now
          in (reg\<lparr>game_states := (game_states reg)(gid \<mapsto> gs),
                  game_locks := insert gid (game_locks reg)\<rparr>, gs)))"

text \<open>The session is mutated in place, so the registry sees every change of it.\<close>

definition store :: "registry \<Rightarrow> string \<Rightarrow> game_state \<Rightarrow> registry" where
  "store reg gid gs = reg\<lparr>game_states := (game_states reg)(gid \<mapsto> gs)\<rparr>"

text \<open>
  A call of one route with everything it reads: the fields of the request (the game
  identifier already defaulted to \<^verbatim>\<open>default\<close>), then the clock readings in the
  order the route takes them (the first one is the reading of \<^verbatim>\<open>create_new_game\<close>,
  used when the session does not exist yet), then the random values.
\<close>

datatype call =
  Join "string option" string real real real
  | GetState string real real real "nat \<Rightarrow> real"
  | Start string real real nat real
  | SelectAvatar string "string option" "string option" real real
  | SelectStrategy string "string option" "string option" real real
  | Buy string "string option" "string option" real real real
  | Sell string "string option" "string option" real real real
  | UsePowerUp string "string option" "string option" real real
  | Reset string real
  | Results string real

datatype response = Done | Joined string | Ranked "result list" | Error error

definition locked ::
  "registry \<Rightarrow> string \<Rightarrow> real \<Rightarrow> (game_state \<Rightarrow> response \<times> game_state) \<Rightarrow> response \<times> registry" where
  "locked reg gid t0 body =
    (let (reg1, gs) = get_game_state reg gid t0
     in if gid \<in> game_locks reg1 then
          (let (r, gs') = body gs in (r, store reg1 gid gs'))
        else (Error KeyError, reg1))"

definition respond :: "outcome \<times> game_state \<Rightarrow> response \<times> game_state" where
  "respond x = (case x of (Ok, gs) \<Rightarrow> (Done, gs) | (Failed e, gs) \<Rightarrow> (Error e, gs))"

fun api :: "registry \<Rightarrow> call \<Rightarrow> response \<times> registry" where
  "api reg (Join name gid t0 t_id t_upd) =
    (case name of
       None \<Rightarrow> (Error NameRequired, reg)
     | Some n \<Rightarrow>
         if n = [] then (Error NameRequired, reg)
         else locked reg gid t0
                (\<lambda>gs. let (pid, gs') = join_game gs n t_id t_upd in (Joined pid, gs')))"
| "api reg (GetState gid t0 now now' rnd) =
    (let (reg1, gs) = get_game_state reg gid t0
     in case get_state_observe gs now rnd of
          (gs2, None) \<Rightarrow> (Done, store reg1 gid gs2)
        | (gs2, Some time_remaining) \<Rightarrow>
            if time_remaining \<le> 0 then
              (if gid \<in> game_locks reg1
               then (Done, store reg1 gid (get_state_advance gs2 now'))
               else (Error KeyError, store reg1 gid gs2))
            else (Done, store reg1 gid gs2))"
| "api reg (Start gid t0 t1 k t2) =
    locked reg gid t0 (\<lambda>gs. (Done, start_game gs t1 k t2))"
| "api reg (SelectAvatar gid pid avatar_id t0 now) =
    locked reg gid t0 (\<lambda>gs. (Done, select_avatar gs pid avatar_id now))"
| "api reg (SelectStrategy gid pid strategy_id t0 now) =
    locked reg gid t0 (\<lambda>gs. (Done, select_strategy gs pid strategy_id now))"
| "api reg (Buy gid pid aid amount t0 now) =
    locked reg gid t0 (\<lambda>gs. respond (buy_asset gs pid aid amount now))"
| "api reg (Sell gid pid aid amount t0 now) =
    locked reg gid t0 (\<lambda>gs. respond (sell_asset gs pid aid amount now))"
| "api reg (UsePowerUp gid pid puid t0 now) =
    locked reg gid t0 (\<lambda>gs. respond (use_powerup gs pid puid now))"
| "api reg (Reset gid now) = (Done, store reg gid (create_new_game gid now))"
| "api reg (Results gid t0) =
    (let (reg1, gs) = get_game_state reg gid t0
     in case get_results gs of
          Inl e \<Rightarrow> (Error e, reg1)
        | Inr rs \<Rightarrow> (Ranked rs, reg1))"

text \<open>The registries that a sequence of calls can produce from the empty one.\<close>

inductive reachable :: "registry \<Rightarrow> bool" where
  reachable_empty: "reachable empty_registry"
| reachable_api: "reachable reg \<Longrightarrow> reachable (snd (api reg c))"

fun run :: "registry \<Rightarrow> call list \<Rightarrow> registry" where
  "run reg [] = reg"
| "run reg (c # cs) = run (snd (api reg c)) cs"

section \<open>Quantities named by the specification\<close>

text \<open>
  The specification of the risk score speaks of the weight and of the contribution of a
  holding, and of their totals; they are defined here from its words, and related to
  the accumulators of \<open>calculate_risk\<close> below. A holding of an asset that the list does
  not contain weighs nothing.
\<close>

definition holding_weight :: "asset list \<Rightarrow> holding \<Rightarrow> real" where
  "holding_weight as h =
    (case find (\<lambda>a. asset_id a = assetId h) as of
       None \<Rightarrow> 0
     | Some a \<Rightarrow> quantity h * currentPrice a)"

definition holding_contribution :: "asset list \<Rightarrow> holding \<Rightarrow> real" where
  "holding_contribution as h =
    (case find (\<lambda>a. asset_id a = assetId h) as of
       None \<Rightarrow> 0
     | Some a \<Rightarrow> quantity h * currentPrice a * baseVolatility a * 500)"

definition total_weight :: "asset list \<Rightarrow> holding list \<Rightarrow> real" where
  "total_weight as hs = sum_list (map (holding_weight as) hs)"

definition total_contribution :: "asset list \<Rightarrow> holding list \<Rightarrow> real" where
  "total_contribution as hs = sum_list (map (holding_contribution as) hs)"


section \<open>Reading a session\<close>

text \<open>
  What the claims say about a trade is said of the player and of the asset that the
  request names: the player's cash, holdings and transaction log, the asset's current
  price, and the quantity the player holds of the asset (nothing when there is no
  holding). These read them off a session with the lookups of the handlers.
\<close>

definition the_player :: "game_state \<Rightarrow> string option \<Rightarrow> player option" where
  "the_player gs pid = find (is_player pid) (players gs)"

definition the_asset :: "game_state \<Rightarrow> string option \<Rightarrow> asset option" where
  "the_asset gs aid = find (\<lambda>a. Some (asset_id a) = aid) (assets gs)"

definition cash_of :: "game_state \<Rightarrow> string option \<Rightarrow> real" where
  "cash_of gs pid = (case the_player gs pid of None \<Rightarrow> 0 | Some p \<Rightarrow> cash p)"

definition holdings_of :: "game_state \<Rightarrow> string option \<Rightarrow> holding list" where
  "holdings_of gs pid = (case the_player gs pid of None \<Rightarrow> [] | Some p \<Rightarrow> holdings p)"


definition price_of :: "game_state \<Rightarrow> string option \<Rightarrow> real" where
  "price_of gs aid = (case the_asset gs aid of None \<Rightarrow> 0 | Some a \<Rightarrow> currentPrice a)"

definition held :: "game_state \<Rightarrow> string option \<Rightarrow> string option \<Rightarrow> holding option" where
  "held gs pid aid = find (\<lambda>h. Some (assetId h) = aid) (holdings_of gs pid)"

definition held_quantity :: "game_state \<Rightarrow> string option \<Rightarrow> string option \<Rightarrow> real" where
  "held_quantity gs pid aid = (case held gs pid aid of None \<Rightarrow> 0 | Some h \<Rightarrow> quantity h)"


text \<open>
  A session to try the handlers on: alice has joined, the game has started, and she has
  bought two shares of \<^verbatim>\<open>AAPL\<close>.
\<close>

definition demo_session :: game_state where
  "demo_session = the (game_states (run empty_registry
     [Join (Some ''alice'') ''default'' 1000 1000 1000,
      Start ''default'' 1000 1000 0 1000,
      Buy ''default'' (Some ''player-0-1000'') (Some ''AAPL'') 2 1000 1001]) ''default'')"

text \<open>
  A second session: alice has joined, the game has started, and her purchase of \<open>-2\<close>
  shares of \<^verbatim>\<open>AAPL\<close> was accepted, so she holds the quantity \<open>-2\<close>.
\<close>

definition short_session :: game_state where
  "short_session = the (game_states (run empty_registry
     [Join (Some ''alice'') ''default'' 1000 1000 1000,
      Start ''default'' 1000 1000 0 1000,
      Buy ''default'' (Some ''player-0-1000'') (Some ''AAPL'') (- 2) 1000 1001]) ''default'')"

text \<open>
  The specification of the results names, for a player, the final value (the total
  value, with the bonus of five percent for the strategy \<^verbatim>\<open>DIVERSIFIER\<close> on four or
  more distinct assets), the return on investment and the risk-adjusted score.
\<close>

definition final_value :: "player \<Rightarrow> real" where
  "final_value p =
    (if strategyId p = Some ''DIVERSIFIER'' \<and> 4 \<le> card (assetId ` set (holdings p))
     then totalValue p + totalValue p * (5 / 100) else totalValue p)"

definition roi_of :: "player \<Rightarrow> real" where
  "roi_of p = (final_value p - 10000) / 10000 * 100"

definition risk_adjusted :: "player \<Rightarrow> real" where
  "risk_adjusted p = roi_of p - of_int (riskScore p) * (5 / 10)"

text \<open>
  A session that has run to its end: alice and bob have joined, alice has bought two
  shares of \<^verbatim>\<open>AAPL\<close>, and five polls, each at the end of a round, have taken the game
  through its five rounds.
\<close>

definition finished_registry :: registry where
  "finished_registry = run empty_registry
     [Join (Some ''alice'') ''default'' 1000 1000 1000,
      Join (Some ''bob'') ''default'' 1000 1000 1000,
      Start ''default'' 1000 1000 0 1000,
      Buy ''default'' (Some ''player-0-1000'') (Some ''AAPL'') 2 1000 1001,
      GetState ''default'' 1000 1035 1035 (\<lambda>_. 1 / 2),
      GetState ''default'' 1000 1070 1070 (\<lambda>_. 1 / 2),
      GetState ''default'' 1000 1105 1105 (\<lambda>_. 1 / 2),
      GetState ''default'' 1000 1140 1140 (\<lambda>_. 1 / 2),
      GetState ''default'' 1000 1175 1175 (\<lambda>_. 1 / 2)]"

definition finished_session :: game_state where
  "finished_session = the (game_states finished_registry ''default'')"

section \<open>Invariants of the sessions\<close>

text \<open>
  A property of every session of a registry, and the two properties that the claims
  about reachable states are proved with: the bound on the price histories, and the
  absence of a market event, of sentiment, and of their traces in the transaction logs.
\<close>

definition all_sessions :: "(game_state \<Rightarrow> bool) \<Rightarrow> registry \<Rightarrow> bool" where
  "all_sessions P reg = (\<forall>gid gs. game_states reg gid = Some gs \<longrightarrow> P gs)"

definition history_bounded :: "game_state \<Rightarrow> bool" where
  "history_bounded gs = (\<forall>a\<in>set (assets gs). length (history a) \<le> 50)"

definition clean_log :: "player \<Rightarrow> bool" where
  "clean_log p = (\<forall>tx\<in>set (transactionLog p). eventActive tx = None \<and> sentimentAtTime tx = 0)"

definition no_event :: "game_state \<Rightarrow> bool" where
  "no_event gs =
    (activeEvent gs = None \<and> (\<forall>t. sentiment gs t = 0) \<and> (\<forall>p\<in>set (players gs). clean_log p))"

text \<open>An asset whose history is full, to try the price update on.\<close>

definition full_asset :: asset where
  "full_asset =
    \<lparr>asset_id = ''AAPL'', asset_name = ''Apple Inc.'', asset_type = STOCK,
     baseVolatility = 8 / 10, trendBias = ''UP'', currentPrice = 150,
     history = replicate 50 150\<rparr>"

section \<open>The doubles of the program\<close>

text \<open>
  The handlers compute on IEEE 754 doubles. The result of one arithmetic operation on
  doubles is the exact result rounded to the nearest double, a tie to the even
  significand: the exact result \<open>x\<close> lies in the binade \<open>2 ^ e \<le> |x| < 2 ^ (e + 1)\<close>,
  where the doubles are the multiples of \<open>2 ^ (e - 52)\<close> (of \<open>2 ^ (- 1074)\<close> for the
  subnormal numbers). Overflow to infinity is not modelled; it needs a magnitude of
  \<open>2 ^ 1024\<close>. \<open>bit_length\<close> is Python's \<^verbatim>\<open>int.bit_length\<close>.
\<close>

function bit_length :: "int \<Rightarrow> int" where
  "bit_length n = (if n \<le> 0 then 0 else 1 + bit_length (n div 2))"
  by pat_completeness auto
termination
  by (relation "measure nat") auto

declare bit_length.simps [simp del]

definition binade :: "real \<Rightarrow> int" where
  "binade x =
    (if 1 \<le> \<bar>x\<bar> then bit_length \<lfloor>\<bar>x\<bar>\<rfloor> - 1
     else - bit_length (\<lceil>1 / \<bar>x\<bar>\<rceil> - 1))"

definition pow2 :: "int \<Rightarrow> real" where
  "pow2 q = (if 0 \<le> q then 2 ^ nat q else 1 / 2 ^ nat (- q))"

definition double :: "real \<Rightarrow> real" where
  "double x =
    (if x = 0 then 0
     else (let q = max (binade x - 52) (- 1074)
           in of_int (py_round (x / pow2 q)) * pow2 q))"

text \<open>
  The cash of a player through a purchase and the sale that follows it, as the doubles
  of the program compute it: \<^verbatim>\<open>cost = amount * price\<close> (line 403),
  \<^verbatim>\<open>cash -= cost\<close> (line 405), \<^verbatim>\<open>revenue = amount * price\<close> (line 457) and
  \<^verbatim>\<open>cash += revenue\<close> (line 458), each operation rounded.
\<close>

definition round_trip_cash :: "real \<Rightarrow> real \<Rightarrow> real \<Rightarrow> real" where
  "round_trip_cash c amount price =
    (let cost = double (amount * price);
         c1 = double (c - cost);
         revenue = double (amount * price)
     in double (c1 + revenue))"

section \<open>General lemmas\<close>

lemma find_in_set: "find P xs = Some x \<Longrightarrow> x \<in> set xs"
  by (induction xs) (auto split: if_splits)

lemma reachable_run: "reachable (run empty_registry cs)"
proof -
  have "reachable reg \<Longrightarrow> reachable (run reg cs)" for reg
    by (induction cs arbitrary: reg) (auto intro: reachable_api)
  then show ?thesis by (simp add: reachable_empty)
qed

section \<open>The risk score\<close>

lemma risk_totals_sums:
  "risk_totals as hs (r, v) = (r + total_contribution as hs, v + total_weight as hs)"
  by (induction hs arbitrary: r v)
     (auto simp: total_weight_def total_contribution_def holding_weight_def
        holding_contribution_def Let_def split: option.splits)

lemma py_round_nonneg: "0 \<le> x \<Longrightarrow> 0 \<le> py_round x"
  by (auto simp: py_round_def Let_def)

lemma holding_weight_nonneg:
  assumes "0 \<le> quantity h"
    and "\<forall>a\<in>set as. 0 \<le> currentPrice a \<and> 0 \<le> baseVolatility a"
  shows "0 \<le> holding_weight as h" and "0 \<le> holding_contribution as h"
  using assms
  by (auto simp: holding_weight_def holding_contribution_def split: option.splits
      dest!: find_in_set)

lemma totals_nonneg:
  assumes "\<forall>h\<in>set hs. 0 \<le> quantity h"
    and "\<forall>a\<in>set as. 0 \<le> currentPrice a \<and> 0 \<le> baseVolatility a"
  shows "0 \<le> total_weight as hs" and "0 \<le> total_contribution as hs"
  using assms
  by (auto simp: total_weight_def total_contribution_def
      intro!: sum_list_nonneg holding_weight_nonneg)

lemma calculate_risk_unfold:
  "calculate_risk p as =
     (if 0 < total_weight as (holdings p) then
        (if strategyId p = Some ''SAFETY_FIRST''
         then max 0 (min 100 (py_round (total_contribution as (holdings p)
                                 / total_weight as (holdings p) * 100)) - 10)
         else min 100 (py_round (total_contribution as (holdings p)
                          / total_weight as (holdings p) * 100)))
      else 0)"
  by (simp add: calculate_risk_def risk_totals_sums Let_def)

text \<open>
  Claim C5, as the specification states it: the risk score of every player over every
  list of assets is an integer in \<open>[0, 100]\<close>. It fails for a portfolio that a player
  can build through the routes: after joining and the start of the game, a purchase of
  \<open>-1\<close> Bitcoin and one of \<open>500\<close> bonds are both accepted, and the next poll that
  updates the prices (here with every random draw at \<open>1/2\<close>, so that no price moves)
  stores the risk score \<open>-975000\<close>.
\<close>

theorem calculate_risk_out_of_range:
  "map riskScore (players (the (game_states (run empty_registry
     [Join (Some ''alice'') ''default'' 1000 1000 1000,
      Start ''default'' 1000 1000 0 1000,
      Buy ''default'' (Some ''player-0-1000'') (Some ''BTC'') (- 1) 1000 1001,
      Buy ''default'' (Some ''player-0-1000'') (Some ''GOVT'') 500 1000 1002,
      GetState ''default'' 1000 1010 1010 (\<lambda>_. 1 / 2)]) ''default'')))
   = [- 975000]
   \<and> \<not> (0 \<le> calculate_risk
          \<lparr>player_id = ''player-0-1000'', player_name = ''alice'', cash = 5000,
           holdings = [\<lparr>assetId = ''BTC'', quantity = - 1, avgBuyPrice = 45000\<rparr>,
                       \<lparr>assetId = ''GOVT'', quantity = 500, avgBuyPrice = 100\<rparr>],
           riskScore = 0, powerUps = [], totalValue = 10000, ready = False,
           transactionLog = [], avatarId = None, strategyId = None\<rparr>
          INITIAL_ASSETS)"
  by code_simp

text \<open>
  Claim C5, amended to what \<open>calculate_risk\<close> computes. The score never exceeds \<open>100\<close>.
  It is \<open>0\<close> when the total weight is not positive (so also without holdings); when the
  total weight is positive it is \<open>round\<close> of total contribution over total weight times
  \<open>100\<close>, capped at \<open>100\<close> and not raised to \<open>0\<close>, with \<open>10\<close> subtracted and floored at
  \<open>0\<close> for the strategy \<^verbatim>\<open>SAFETY_FIRST\<close>. It is at least \<open>0\<close> whenever no quantity,
  price or base volatility is negative.
\<close>

theorem calculate_risk_score:
  "calculate_risk p as \<le> 100
   \<and> (total_weight as (holdings p) \<le> 0 \<longrightarrow> calculate_risk p as = 0)
   \<and> (0 < total_weight as (holdings p) \<longrightarrow>
        calculate_risk p as =
          (let score = min 100 (py_round (total_contribution as (holdings p)
                                   / total_weight as (holdings p) * 100))
           in if strategyId p = Some ''SAFETY_FIRST'' then max 0 (score - 10) else score))
   \<and> ((\<forall>h\<in>set (holdings p). 0 \<le> quantity h)
        \<and> (\<forall>a\<in>set as. 0 \<le> currentPrice a \<and> 0 \<le> baseVolatility a)
      \<longrightarrow> 0 \<le> calculate_risk p as)"
proof -
  have le: "calculate_risk p as \<le> 100"
    unfolding calculate_risk_unfold by (simp add: min_def max_def)
  have zero: "total_weight as (holdings p) \<le> 0 \<longrightarrow> calculate_risk p as = 0"
    by (simp add: calculate_risk_unfold)
  have pos: "0 < total_weight as (holdings p) \<longrightarrow>
        calculate_risk p as =
          (let score = min 100 (py_round (total_contribution as (holdings p)
                                   / total_weight as (holdings p) * 100))
           in if strategyId p = Some ''SAFETY_FIRST'' then max 0 (score - 10) else score)"
    by (simp add: calculate_risk_unfold Let_def)
  have nonneg: "0 \<le> calculate_risk p as"
    if "\<forall>h\<in>set (holdings p). 0 \<le> quantity h"
      and "\<forall>a\<in>set as. 0 \<le> currentPrice a \<and> 0 \<le> baseVolatility a"
  proof -
    have "0 \<le> total_contribution as (holdings p)" "0 \<le> total_weight as (holdings p)"
      using totals_nonneg that by blast+
    then have "0 \<le> py_round (total_contribution as (holdings p)
                       / total_weight as (holdings p) * 100)"
      by (intro py_round_nonneg) simp
    then show ?thesis
      unfolding calculate_risk_unfold by (simp add: min_def max_def)
  qed
  from le zero pos nonneg show ?thesis by blast
qed

theorem calculate_risk_score_witness:
  "total_weight INITIAL_ASSETS (holdings (create_player ''p0'' ''alice'')) \<le> 0
   \<and> calculate_risk (create_player ''p0'' ''alice'') INITIAL_ASSETS = 0
   \<and> 0 < total_weight INITIAL_ASSETS
           [\<lparr>assetId = ''GOVT'', quantity = 10, avgBuyPrice = 100\<rparr>]
   \<and> list_all (\<lambda>h. 0 \<le> quantity h)
        [\<lparr>assetId = ''GOVT'', quantity = 10, avgBuyPrice = 100\<rparr>]
   \<and> list_all (\<lambda>a. 0 \<le> currentPrice a \<and> 0 \<le> baseVolatility a) INITIAL_ASSETS
   \<and> 0 \<le> calculate_risk
        ((create_player ''p0'' ''alice'')
           \<lparr>holdings := [\<lparr>assetId = ''GOVT'', quantity = 10, avgBuyPrice = 100\<rparr>],
            strategyId := Some ''SAFETY_FIRST''\<rparr>) INITIAL_ASSETS
   \<and> calculate_risk
        ((create_player ''p0'' ''alice'')
           \<lparr>holdings := [\<lparr>assetId = ''GOVT'', quantity = 10, avgBuyPrice = 100\<rparr>],
            strategyId := Some ''SAFETY_FIRST''\<rparr>) INITIAL_ASSETS = 90"
proof -
  have w0: "total_weight INITIAL_ASSETS (holdings (create_player ''p0'' ''alice'')) \<le> 0"
    by (simp add: total_weight_def create_player_def)
  have w1: "total_weight INITIAL_ASSETS
              [\<lparr>assetId = ''GOVT'', quantity = 10, avgBuyPrice = 100\<rparr>] = 1000"
    by (simp add: total_weight_def holding_weight_def INITIAL_ASSETS_def)
  have c1: "total_contribution INITIAL_ASSETS
              [\<lparr>assetId = ''GOVT'', quantity = 10, avgBuyPrice = 100\<rparr>] = 150000"
    by (simp add: total_contribution_def holding_contribution_def INITIAL_ASSETS_def)
  have r: "py_round 15000 = 15000"
    by (simp add: py_round_def)
  have n: "\<forall>a\<in>set INITIAL_ASSETS. 0 \<le> currentPrice a \<and> 0 \<le> baseVolatility a"
    by (simp add: INITIAL_ASSETS_def)
  from calculate_risk_score [of "create_player ''p0'' ''alice''" INITIAL_ASSETS] w0
  have "calculate_risk (create_player ''p0'' ''alice'') INITIAL_ASSETS = 0"
    by blast
  moreover
  from calculate_risk_score
     [of "(create_player ''p0'' ''alice'')
            \<lparr>holdings := [\<lparr>assetId = ''GOVT'', quantity = 10, avgBuyPrice = 100\<rparr>],
             strategyId := Some ''SAFETY_FIRST''\<rparr>" INITIAL_ASSETS]
  have "calculate_risk
        ((create_player ''p0'' ''alice'')
           \<lparr>holdings := [\<lparr>assetId = ''GOVT'', quantity = 10, avgBuyPrice = 100\<rparr>],
            strategyId := Some ''SAFETY_FIRST''\<rparr>) INITIAL_ASSETS = 90"
    by (simp add: w1 c1 r)
  ultimately show ?thesis
    using w0 w1 n by (simp add: list_all_iff)
qed

section \<open>Lookups and in-place updates\<close>

lemma find_update_first:
  "find P xs = Some x \<Longrightarrow> P (f x) \<Longrightarrow> find P (update_first P f xs) = Some (f x)"
  by (induction xs) (auto split: if_splits)

lemma update_first_not_found:
  "find P xs = None \<Longrightarrow> update_first P f xs = xs"
  by (induction xs) (auto split: if_splits)

lemma find_snoc:
  "find P (xs @ [y]) = (case find P xs of Some x \<Rightarrow> Some x | None \<Rightarrow> if P y then Some y else None)"
  by (induction xs) auto

lemma filter_update_first:
  "(\<And>x. P x \<Longrightarrow> \<not> Q (f x)) \<Longrightarrow> (\<And>x. P x \<Longrightarrow> \<not> Q x) \<Longrightarrow> filter Q (update_first P f xs) = filter Q xs"
  by (induction xs) auto


lemma length_update_first [simp]: "length (update_first P f xs) = length xs"
  by (induction xs) auto

lemma find_asset_id: "find (\<lambda>a. Some (asset_id a) = aid) as = Some a \<Longrightarrow> aid = Some (asset_id a)"
  by (induction as) (auto split: if_splits)

lemma find_is_player: "find (is_player pid) ps = Some p \<Longrightarrow> is_player pid p"
  by (induction ps) (auto split: if_splits)

section \<open>Selling\<close>


lemma is_holding_eq: "is_holding x = (\<lambda>h. Some (assetId h) = Some x)"
  by (auto simp: is_holding_def fun_eq_iff)



lemma sell_asset_ok:
  assumes "find (is_player pid) (players gs) = Some p"
    and "find (\<lambda>a. Some (asset_id a) = aid) (assets gs) = Some a"
    and "phase gs = PLAYING"
    and "find (is_holding (asset_id a)) (holdings p) = Some h"
    and "amount \<le> quantity h"
  shows "sell_asset gs pid aid amount now =
    (Ok, gs\<lparr>players := update_first (is_player pid)
              (\<lambda>_. p\<lparr>cash := cash p + amount * currentPrice a,
                     holdings := (if quantity h - amount = 0
                                  then filter (\<lambda>h'. assetId h' \<noteq> asset_id a) (holdings p)
                                  else update_first (is_holding (asset_id a))
                                         (\<lambda>h'. h'\<lparr>quantity := quantity h - amount\<rparr>) (holdings p)),
                     transactionLog := transactionLog p @ [trade_record gs SELL a amount (amount * currentPrice a)]\<rparr>)
              (players gs),
            lastUpdate := now\<rparr>)"
proof -
  have f: "filter (\<lambda>h'. assetId h' \<noteq> asset_id a)
          (update_first (is_holding (asset_id a)) (\<lambda>h'. h'\<lparr>quantity := q\<rparr>) (holdings p))
        = filter (\<lambda>h'. assetId h' \<noteq> asset_id a) (holdings p)" for q
    by (rule filter_update_first) (auto simp: is_holding_def)
  have q: "quantity h - amount \<le> 0 \<longleftrightarrow> quantity h - amount = 0"
    using assms(5) by auto
  show ?thesis
    unfolding sell_asset_def Let_def
    by (simp only: assms option.case if_True if_False simp_thms f q phase.simps split: if_splits)
qed



section \<open>Buying\<close>

lemma buy_asset_invalid:
  "find (is_player pid) (players gs) = None \<or> find (\<lambda>a. Some (asset_id a) = aid) (assets gs) = None \<or> phase gs \<noteq> PLAYING
   \<Longrightarrow> buy_asset gs pid aid amount now = (Failed InvalidRequest, gs)"
  by (auto simp: buy_asset_def split: option.splits)

lemma buy_asset_insufficient:
  "find (is_player pid) (players gs) = Some p \<Longrightarrow> find (\<lambda>a. Some (asset_id a) = aid) (assets gs) = Some a \<Longrightarrow> phase gs = PLAYING
   \<Longrightarrow> cash p < amount * currentPrice a
   \<Longrightarrow> buy_asset gs pid aid amount now = (Failed InsufficientFunds, gs)"
  by (auto simp: buy_asset_def Let_def split: option.splits)

lemma buy_asset_new:
  assumes "find (is_player pid) (players gs) = Some p"
    and "find (\<lambda>a. Some (asset_id a) = aid) (assets gs) = Some a"
    and "phase gs = PLAYING"
    and "amount * currentPrice a \<le> cash p"
    and "find (is_holding (asset_id a)) (holdings p) = None"
  shows "buy_asset gs pid aid amount now =
    (Ok, gs\<lparr>players := update_first (is_player pid)
              (\<lambda>_. p\<lparr>cash := cash p - amount * currentPrice a,
                     holdings := holdings p @ [\<lparr>assetId = asset_id a, quantity = amount, avgBuyPrice = currentPrice a\<rparr>],
                     transactionLog := transactionLog p @ [trade_record gs BUY a amount (amount * currentPrice a)]\<rparr>)
              (players gs),
            lastUpdate := now\<rparr>)"
  using assms by (simp add: buy_asset_def Let_def)

lemma buy_asset_more:
  assumes "find (is_player pid) (players gs) = Some p"
    and "find (\<lambda>a. Some (asset_id a) = aid) (assets gs) = Some a"
    and "phase gs = PLAYING"
    and "amount * currentPrice a \<le> cash p"
    and "find (is_holding (asset_id a)) (holdings p) = Some h"
    and "quantity h + amount \<noteq> 0"
  shows "buy_asset gs pid aid amount now =
    (Ok, gs\<lparr>players := update_first (is_player pid)
              (\<lambda>_. p\<lparr>cash := cash p - amount * currentPrice a,
                     holdings := update_first (is_holding (asset_id a))
                       (\<lambda>h'. h'\<lparr>quantity := quantity h + amount,
                                avgBuyPrice := (quantity h * avgBuyPrice h + amount * currentPrice a) / (quantity h + amount)\<rparr>)
                       (holdings p),
                     transactionLog := transactionLog p @ [trade_record gs BUY a amount (amount * currentPrice a)]\<rparr>)
              (players gs),
            lastUpdate := now\<rparr>)"
  using assms by (simp add: buy_asset_def Let_def)

lemma buy_asset_crash:
  assumes "find (is_player pid) (players gs) = Some p"
    and "find (\<lambda>a. Some (asset_id a) = aid) (assets gs) = Some a"
    and "phase gs = PLAYING"
    and "amount * currentPrice a \<le> cash p"
    and "find (is_holding (asset_id a)) (holdings p) = Some h"
    and "quantity h + amount = 0"
  shows "buy_asset gs pid aid amount now =
    (Failed ZeroDivisionError,
     gs\<lparr>players := update_first (is_player pid)
              (\<lambda>_. p\<lparr>cash := cash p - amount * currentPrice a,
                     holdings := update_first (is_holding (asset_id a))
                       (\<lambda>h'. h'\<lparr>quantity := 0\<rparr>) (holdings p)\<rparr>)
              (players gs)\<rparr>)"
  using assms by (simp add: buy_asset_def Let_def)

lemma buy_asset_ok_iff:
  "fst (buy_asset gs pid aid amount now) = Ok \<longleftrightarrow>
    (\<exists>p a. find (is_player pid) (players gs) = Some p
      \<and> find (\<lambda>a. Some (asset_id a) = aid) (assets gs) = Some a
      \<and> phase gs = PLAYING
      \<and> amount * currentPrice a \<le> cash p
      \<and> (case find (is_holding (asset_id a)) (holdings p) of None \<Rightarrow> True | Some h \<Rightarrow> quantity h + amount \<noteq> 0))"
  by (auto simp: buy_asset_def Let_def split: option.splits if_splits)

lemma find_is_holding: "find (is_holding aid) hs = Some h \<Longrightarrow> assetId h = aid"
  by (induction hs) (auto simp: is_holding_def split: if_splits)



lemma is_player_replace: "is_player pid p \<Longrightarrow> is_player pid (p\<lparr>cash := c, holdings := hs, transactionLog := l\<rparr>)"
  by (simp add: is_player_def)

lemma the_player_replace:
  assumes "the_player gs pid = Some p" and "player_id p' = player_id p"
  shows "the_player (gs\<lparr>players := update_first (is_player pid) (\<lambda>_. p') (players gs), lastUpdate := t\<rparr>) pid = Some p'"
    and "the_player (gs\<lparr>players := update_first (is_player pid) (\<lambda>_. p') (players gs)\<rparr>) pid = Some p'"
proof -
  have "is_player pid p" using assms(1) by (auto simp: the_player_def dest: find_is_player)
  then have "is_player pid p'" using assms(2) by (simp add: is_player_def)
  then have "find (is_player pid) (update_first (is_player pid) (\<lambda>_. p') (players gs)) = Some p'"
    using find_update_first [of "is_player pid" "players gs" p "\<lambda>_. p'"] assms(1)
    by (simp add: the_player_def)
  then show "the_player (gs\<lparr>players := update_first (is_player pid) (\<lambda>_. p') (players gs), lastUpdate := t\<rparr>) pid = Some p'"
    and "the_player (gs\<lparr>players := update_first (is_player pid) (\<lambda>_. p') (players gs)\<rparr>) pid = Some p'"
    by (simp_all add: the_player_def)
qed



section \<open>The state after a purchase\<close>

lemma buy_asset_ok_state:
  assumes ok: "fst (buy_asset gs pid aid amount now) = Ok"
  shows "\<exists>p a p1 h1.
      find (is_player pid) (players gs) = Some p
    \<and> find (\<lambda>a. Some (asset_id a) = aid) (assets gs) = Some a
    \<and> phase gs = PLAYING
    \<and> amount * currentPrice a \<le> cash p
    \<and> find (is_player pid) (players (snd (buy_asset gs pid aid amount now))) = Some p1
    \<and> cash p1 = cash p - amount * currentPrice a
    \<and> find (is_holding (asset_id a)) (holdings p1) = Some h1
    \<and> quantity h1 =
        (case find (is_holding (asset_id a)) (holdings p) of None \<Rightarrow> 0 | Some h \<Rightarrow> quantity h)
        + amount
    \<and> assets (snd (buy_asset gs pid aid amount now)) = assets gs
    \<and> phase (snd (buy_asset gs pid aid amount now)) = phase gs"
proof -
  from ok obtain p a where p: "find (is_player pid) (players gs) = Some p"
    and a: "find (\<lambda>a. Some (asset_id a) = aid) (assets gs) = Some a"
    and ph: "phase gs = PLAYING"
    and le: "amount * currentPrice a \<le> cash p"
    and h: "case find (is_holding (asset_id a)) (holdings p) of
              None \<Rightarrow> True | Some h \<Rightarrow> quantity h + amount \<noteq> 0"
    unfolding buy_asset_ok_iff by blast
  have tp: "the_player gs pid = Some p"
    using p by (simp add: the_player_def)
  show ?thesis
  proof (cases "find (is_holding (asset_id a)) (holdings p)")
    case None
    let ?p1 = "p\<lparr>cash := cash p - amount * currentPrice a,
                 holdings := holdings p
                   @ [\<lparr>assetId = asset_id a, quantity = amount, avgBuyPrice = currentPrice a\<rparr>],
                 transactionLog := transactionLog p
                   @ [trade_record gs BUY a amount (amount * currentPrice a)]\<rparr>"
    note eq = buy_asset_new [OF p a ph le None, of now]
    have "the_player (snd (buy_asset gs pid aid amount now)) pid = Some ?p1"
      unfolding eq snd_conv by (rule the_player_replace(1) [OF tp]) simp
    then have p1: "find (is_player pid) (players (snd (buy_asset gs pid aid amount now))) = Some ?p1"
      by (simp add: the_player_def)
    have h1: "find (is_holding (asset_id a)) (holdings ?p1)
        = Some \<lparr>assetId = asset_id a, quantity = amount, avgBuyPrice = currentPrice a\<rparr>"
      using None by (simp add: find_snoc is_holding_def)
    show ?thesis
      using p a ph le p1 h1 None by (simp add: eq)
  next
    case (Some h0)
    with h have ne: "quantity h0 + amount \<noteq> 0" by simp
    let ?f = "\<lambda>h'. h'\<lparr>quantity := quantity h0 + amount,
                avgBuyPrice := (quantity h0 * avgBuyPrice h0 + amount * currentPrice a)
                                 / (quantity h0 + amount)\<rparr>"
    let ?p1 = "p\<lparr>cash := cash p - amount * currentPrice a,
                 holdings := update_first (is_holding (asset_id a)) ?f (holdings p),
                 transactionLog := transactionLog p
                   @ [trade_record gs BUY a amount (amount * currentPrice a)]\<rparr>"
    note eq = buy_asset_more [OF p a ph le Some ne, of now]
    have "the_player (snd (buy_asset gs pid aid amount now)) pid = Some ?p1"
      unfolding eq snd_conv by (rule the_player_replace(1) [OF tp]) simp
    then have p1: "find (is_player pid) (players (snd (buy_asset gs pid aid amount now))) = Some ?p1"
      by (simp add: the_player_def)
    have "is_holding (asset_id a) h0"
      using find_is_holding [OF Some] by (simp add: is_holding_def)
    then have h1: "find (is_holding (asset_id a)) (holdings ?p1) = Some (?f h0)"
      using find_update_first [OF Some, of ?f] by (simp add: is_holding_def)
    show ?thesis
      using p a ph le p1 h1 Some by (simp add: eq)
  qed
qed

lemma held_quantity_eq:
  assumes "find (is_player pid) (players gs) = Some p"
    and "find (\<lambda>a. Some (asset_id a) = aid) (assets gs) = Some a"
  shows "held gs pid aid = find (is_holding (asset_id a)) (holdings p)"
    and "held_quantity gs pid aid =
      (case find (is_holding (asset_id a)) (holdings p) of None \<Rightarrow> 0 | Some h \<Rightarrow> quantity h)"
    and "cash_of gs pid = cash p"
    and "price_of gs aid = currentPrice a"
proof -
  have aid: "aid = Some (asset_id a)" using assms(2) by (rule find_asset_id)
  show 1: "held gs pid aid = find (is_holding (asset_id a)) (holdings p)"
    using assms(1) unfolding held_def holdings_of_def the_player_def aid is_holding_eq by simp
  show "held_quantity gs pid aid =
      (case find (is_holding (asset_id a)) (holdings p) of None \<Rightarrow> 0 | Some h \<Rightarrow> quantity h)"
    unfolding held_quantity_def 1 ..
  show "cash_of gs pid = cash p"
    using assms(1) by (simp add: cash_of_def the_player_def)
  show "price_of gs aid = currentPrice a"
    using assms(2) by (simp add: price_of_def the_asset_def)
qed

text \<open>
  Claim C3 says that a purchase that fails leaves cash and holdings unchanged. Here
  alice holds two shares of \<^verbatim>\<open>AAPL\<close> and buys the amount \<open>-2\<close>: the request
  passes both checks, line 405 credits her \<open>300\<close>, line 410 sets the quantity to \<open>0\<close>,
  and the division of line 411 raises \<^verbatim>\<open>ZeroDivisionError\<close>. The request has failed,
  her cash has gone from \<open>9700\<close> to \<open>10000\<close> and her quantity from \<open>2\<close> to \<open>0\<close>.
\<close>

theorem buy_asset_crash_changes_state:
  "fst (api (run empty_registry
          [Join (Some ''alice'') ''default'' 1000 1000 1000,
           Start ''default'' 1000 1000 0 1000,
           Buy ''default'' (Some ''player-0-1000'') (Some ''AAPL'') 2 1000 1001])
        (Buy ''default'' (Some ''player-0-1000'') (Some ''AAPL'') (- 2) 1000 1002))
     = Error ZeroDivisionError
   \<and> fst (buy_asset demo_session (Some ''player-0-1000'') (Some ''AAPL'') (- 2) 1002)
       = Failed ZeroDivisionError
   \<and> cash_of demo_session (Some ''player-0-1000'') = 9700
   \<and> map quantity (holdings_of demo_session (Some ''player-0-1000'')) = [2]
   \<and> cash_of (snd (buy_asset demo_session (Some ''player-0-1000'') (Some ''AAPL'') (- 2) 1002))
        (Some ''player-0-1000'') = 10000
   \<and> map quantity (holdings_of
        (snd (buy_asset demo_session (Some ''player-0-1000'') (Some ''AAPL'') (- 2) 1002))
        (Some ''player-0-1000'')) = [0]"
  by code_simp

text \<open>
  Claim C10 says that, with a known player and asset in the phase \<open>PLAYING\<close>, every
  amount whose cost does not exceed the cash is bought, zero and negative amounts
  included, and that the quantity it leaves may be zero. Here alice holds two shares
  and buys the amount \<open>-2\<close>: the player and the asset are known, the phase is
  \<open>PLAYING\<close>, the cost \<open>-300\<close> does not exceed her cash, and the purchase does not
  succeed, because the new quantity \<open>0\<close> is the divisor of line 411.
\<close>

theorem buy_asset_not_always_ok:
  "the_player demo_session (Some ''player-0-1000'') \<noteq> None
   \<and> the_asset demo_session (Some ''AAPL'') \<noteq> None
   \<and> phase demo_session = PLAYING
   \<and> (- 2) * price_of demo_session (Some ''AAPL'') \<le> cash_of demo_session (Some ''player-0-1000'')
   \<and> held_quantity demo_session (Some ''player-0-1000'') (Some ''AAPL'') + (- 2) = 0
   \<and> fst (buy_asset demo_session (Some ''player-0-1000'') (Some ''AAPL'') (- 2) 1002) \<noteq> Ok
   \<and> fst (buy_asset demo_session (Some ''player-0-1000'') (Some ''AAPL'') (- 2) 1002)
       = Failed ZeroDivisionError"
  by code_simp

text \<open>
  Away from that division the purchase does what the claim says. With a known player
  and asset in the phase \<open>PLAYING\<close>, an amount of any sign whose cost does not exceed the
  cash is bought when the player does not hold the asset yet or the quantity does not
  come to exactly \<open>0\<close>; the cash changes by \<open>- amount * price\<close>, and the holding left has
  the quantity held before plus the amount, which may be zero (a first purchase of the
  amount \<open>0\<close>) or negative, as in the example below, which ends with the quantity
  \<open>-1\<close>.
\<close>

lemma buy_asset_any_amount:
  "the_player gs pid \<noteq> None \<and> the_asset gs aid \<noteq> None \<and> phase gs = PLAYING
     \<and> amount * price_of gs aid \<le> cash_of gs pid
     \<and> (held gs pid aid = None \<or> held_quantity gs pid aid + amount \<noteq> 0)
   \<longrightarrow> fst (buy_asset gs pid aid amount now) = Ok
       \<and> cash_of (snd (buy_asset gs pid aid amount now)) pid
           = cash_of gs pid - amount * price_of gs aid
       \<and> held (snd (buy_asset gs pid aid amount now)) pid aid \<noteq> None
       \<and> held_quantity (snd (buy_asset gs pid aid amount now)) pid aid
           = held_quantity gs pid aid + amount"
proof (intro impI, elim conjE)
  assume "the_player gs pid \<noteq> None" "the_asset gs aid \<noteq> None"
    and ph: "phase gs = PLAYING"
    and le: "amount * price_of gs aid \<le> cash_of gs pid"
    and hd: "held gs pid aid = None \<or> held_quantity gs pid aid + amount \<noteq> 0"
  then obtain p a where p: "find (is_player pid) (players gs) = Some p"
    and a: "find (\<lambda>a. Some (asset_id a) = aid) (assets gs) = Some a"
    by (auto simp: the_player_def the_asset_def)
  note r = held_quantity_eq [OF p a]
  have ok: "fst (buy_asset gs pid aid amount now) = Ok"
    unfolding buy_asset_ok_iff
    using p a ph le hd unfolding r by (auto split: option.splits)
  from buy_asset_ok_state [OF ok] p a obtain p1 h1 where
    p1: "find (is_player pid) (players (snd (buy_asset gs pid aid amount now))) = Some p1"
    and c1: "cash p1 = cash p - amount * currentPrice a"
    and h1: "find (is_holding (asset_id a)) (holdings p1) = Some h1"
    and q1: "quantity h1 =
        (case find (is_holding (asset_id a)) (holdings p) of None \<Rightarrow> 0 | Some h \<Rightarrow> quantity h)
        + amount"
    and as: "assets (snd (buy_asset gs pid aid amount now)) = assets gs"
    by auto
  have a1: "find (\<lambda>a. Some (asset_id a) = aid) (assets (snd (buy_asset gs pid aid amount now))) = Some a"
    using a as by simp
  note r1 = held_quantity_eq [OF p1 a1]
  show "fst (buy_asset gs pid aid amount now) = Ok
       \<and> cash_of (snd (buy_asset gs pid aid amount now)) pid
           = cash_of gs pid - amount * price_of gs aid
       \<and> held (snd (buy_asset gs pid aid amount now)) pid aid \<noteq> None
       \<and> held_quantity (snd (buy_asset gs pid aid amount now)) pid aid
           = held_quantity gs pid aid + amount"
    unfolding r r1 using ok c1 h1 q1 by simp
qed

lemma buy_asset_any_amount_example:
  "the_player demo_session (Some ''player-0-1000'') \<noteq> None
   \<and> the_asset demo_session (Some ''AAPL'') \<noteq> None
   \<and> phase demo_session = PLAYING
   \<and> (- 3) * price_of demo_session (Some ''AAPL'') \<le> cash_of demo_session (Some ''player-0-1000'')
   \<and> held_quantity demo_session (Some ''player-0-1000'') (Some ''AAPL'') + (- 3) \<noteq> 0
   \<and> fst (buy_asset demo_session (Some ''player-0-1000'') (Some ''AAPL'') (- 3) 1002) = Ok
   \<and> cash_of (snd (buy_asset demo_session (Some ''player-0-1000'') (Some ''AAPL'') (- 3) 1002))
        (Some ''player-0-1000'') = 10150
   \<and> held_quantity (snd (buy_asset demo_session (Some ''player-0-1000'') (Some ''AAPL'') (- 3) 1002))
        (Some ''player-0-1000'') (Some ''AAPL'') = - 1"
proof -
  have known: "the_player demo_session (Some ''player-0-1000'') \<noteq> None"
    "the_asset demo_session (Some ''AAPL'') \<noteq> None" "phase demo_session = PLAYING"
    by code_simp+
  have v: "price_of demo_session (Some ''AAPL'') = 150"
    "cash_of demo_session (Some ''player-0-1000'') = 9700"
    "held_quantity demo_session (Some ''player-0-1000'') (Some ''AAPL'') = 2"
    by code_simp+
  from buy_asset_any_amount
    [of demo_session "Some ''player-0-1000''" "Some ''AAPL''" "- 3" 1002] known
  have "fst (buy_asset demo_session (Some ''player-0-1000'') (Some ''AAPL'') (- 3) 1002) = Ok
   \<and> cash_of (snd (buy_asset demo_session (Some ''player-0-1000'') (Some ''AAPL'') (- 3) 1002))
        (Some ''player-0-1000'') = 10150
   \<and> held_quantity (snd (buy_asset demo_session (Some ''player-0-1000'') (Some ''AAPL'') (- 3) 1002))
        (Some ''player-0-1000'') (Some ''AAPL'') = - 1"
    by (simp add: v)
  then show ?thesis
    using known by (simp add: v)
qed

lemma double_examples:
  "double 1 = 1 \<and> double 10000 = 10000 \<and> double (- 3 / 4) = - 3 / 4
   \<and> double (1 / 10) = 3602879701896397 / 2 ^ 55"
  by code_simp

text \<open>
  Claim C7, as stated: a purchase followed by the sale of the same amount returns the
  cash to exactly its value before the purchase. It fails in two ways. Alice holds the
  quantity \<open>-2\<close>; her purchase of one share is accepted and brings the quantity to
  \<open>-1\<close>, the sale of one share is then refused, and her cash stays \<open>150\<close> below its
  value before the purchase. And where both trades succeed the cash is
  \<^verbatim>\<open>(cash - cost) + cost\<close> in doubles: with the cash \<^verbatim>\<open>9552.19315823142\<close> and seven
  units at the price \<^verbatim>\<open>99.7877563644349\<close> (both written here as the doubles they
  are, an integer over a power of two) it comes back as \<^verbatim>\<open>9552.193158231421\<close>, the
  next double.
\<close>

theorem buy_then_sell_not_restored:
  "fst (buy_asset short_session (Some ''player-0-1000'') (Some ''AAPL'') 1 1002) = Ok
   \<and> fst (sell_asset
            (snd (buy_asset short_session (Some ''player-0-1000'') (Some ''AAPL'') 1 1002))
            (Some ''player-0-1000'') (Some ''AAPL'') 1 1003) = Failed InsufficientHoldings
   \<and> cash_of short_session (Some ''player-0-1000'') = 10300
   \<and> cash_of (snd (sell_asset
            (snd (buy_asset short_session (Some ''player-0-1000'') (Some ''AAPL'') 1 1002))
            (Some ''player-0-1000'') (Some ''AAPL'') 1 1003)) (Some ''player-0-1000'') = 10150
   \<and> double (955219315823142 / 100000000000) = 5251373724118899 / 2 ^ 39
   \<and> double (997877563644349 / 10000000000000) = 3510969549835991 / 2 ^ 45
   \<and> round_trip_cash (5251373724118899 / 2 ^ 39) 7 (3510969549835991 / 2 ^ 45)
       = 1312843431029725 / 2 ^ 37
   \<and> round_trip_cash (5251373724118899 / 2 ^ 39) 7 (3510969549835991 / 2 ^ 45)
       \<noteq> 5251373724118899 / 2 ^ 39"
  by code_simp

text \<open>
  Claim C7, amended to what the two handlers do. When the purchase succeeds and the
  quantity held before it is not negative (no holding counts as \<open>0\<close>), the sale of the
  same amount right after it succeeds, at the same price, and credits to the cash the
  very \<open>amount * price\<close> that the purchase debited, whatever the average buy price has
  become. Nothing is said of the sum \<open>(cash - cost) + cost\<close>, which the program rounds
  twice.
\<close>

theorem buy_then_sell_same_amount:
  "fst (buy_asset gs pid aid amount t1) = Ok \<and> 0 \<le> held_quantity gs pid aid
   \<longrightarrow> fst (sell_asset (snd (buy_asset gs pid aid amount t1)) pid aid amount t2) = Ok
       \<and> price_of (snd (buy_asset gs pid aid amount t1)) aid = price_of gs aid
       \<and> cash_of (snd (buy_asset gs pid aid amount t1)) pid
           = cash_of gs pid - amount * price_of gs aid
       \<and> cash_of (snd (sell_asset (snd (buy_asset gs pid aid amount t1)) pid aid amount t2)) pid
           = cash_of (snd (buy_asset gs pid aid amount t1)) pid + amount * price_of gs aid"
proof (intro impI, elim conjE)
  assume ok: "fst (buy_asset gs pid aid amount t1) = Ok"
    and nn: "0 \<le> held_quantity gs pid aid"
  let ?gs1 = "snd (buy_asset gs pid aid amount t1)"
  from buy_asset_ok_state [OF ok] obtain p a p1 h1 where
    p: "find (is_player pid) (players gs) = Some p"
    and a: "find (\<lambda>a. Some (asset_id a) = aid) (assets gs) = Some a"
    and ph: "phase gs = PLAYING"
    and p1: "find (is_player pid) (players ?gs1) = Some p1"
    and c1: "cash p1 = cash p - amount * currentPrice a"
    and h1: "find (is_holding (asset_id a)) (holdings p1) = Some h1"
    and q1: "quantity h1 =
        (case find (is_holding (asset_id a)) (holdings p) of None \<Rightarrow> 0 | Some h \<Rightarrow> quantity h)
        + amount"
    and as: "assets ?gs1 = assets gs"
    and ph1: "phase ?gs1 = phase gs"
    by blast
  note r = held_quantity_eq [OF p a]
  have a1: "find (\<lambda>a. Some (asset_id a) = aid) (assets ?gs1) = Some a"
    using a as by simp
  have le: "amount \<le> quantity h1"
    using nn unfolding r q1 by simp
  have ph1': "phase ?gs1 = PLAYING" using ph ph1 by simp
  note eq = sell_asset_ok [OF p1 a1 ph1' h1 le, of t2]
  have tp1: "the_player ?gs1 pid = Some p1" using p1 by (simp add: the_player_def)
  let ?p2 = "p1\<lparr>cash := cash p1 + amount * currentPrice a,
                 holdings := (if quantity h1 - amount = 0
                              then filter (\<lambda>h'. assetId h' \<noteq> asset_id a) (holdings p1)
                              else update_first (is_holding (asset_id a))
                                     (\<lambda>h'. h'\<lparr>quantity := quantity h1 - amount\<rparr>) (holdings p1)),
                 transactionLog := transactionLog p1
                   @ [trade_record ?gs1 SELL a amount (amount * currentPrice a)]\<rparr>"
  have "the_player (snd (sell_asset ?gs1 pid aid amount t2)) pid = Some ?p2"
    unfolding eq snd_conv by (rule the_player_replace(1) [OF tp1]) simp
  then have c2: "cash_of (snd (sell_asset ?gs1 pid aid amount t2)) pid
      = cash p1 + amount * currentPrice a"
    by (simp add: cash_of_def)
  have c1': "cash_of ?gs1 pid = cash p1"
    using tp1 by (simp add: cash_of_def)
  have pr: "price_of ?gs1 aid = price_of gs aid"
    by (simp add: price_of_def the_asset_def as)
  show "fst (sell_asset ?gs1 pid aid amount t2) = Ok
       \<and> price_of ?gs1 aid = price_of gs aid
       \<and> cash_of ?gs1 pid = cash_of gs pid - amount * price_of gs aid
       \<and> cash_of (snd (sell_asset ?gs1 pid aid amount t2)) pid
           = cash_of ?gs1 pid + amount * price_of gs aid"
    using c1 c1' c2 pr by (simp add: eq r)
qed

theorem buy_then_sell_same_amount_witness:
  "fst (buy_asset demo_session (Some ''player-0-1000'') (Some ''AAPL'') 3 1002) = Ok
   \<and> 0 \<le> held_quantity demo_session (Some ''player-0-1000'') (Some ''AAPL'')
   \<and> fst (sell_asset
            (snd (buy_asset demo_session (Some ''player-0-1000'') (Some ''AAPL'') 3 1002))
            (Some ''player-0-1000'') (Some ''AAPL'') 3 1003) = Ok
   \<and> cash_of (snd (buy_asset demo_session (Some ''player-0-1000'') (Some ''AAPL'') 3 1002))
        (Some ''player-0-1000'') = 9250
   \<and> cash_of (snd (sell_asset
            (snd (buy_asset demo_session (Some ''player-0-1000'') (Some ''AAPL'') 3 1002))
            (Some ''player-0-1000'') (Some ''AAPL'') 3 1003)) (Some ''player-0-1000'')
       = 9250 + 3 * 150"
proof -
  have ok: "fst (buy_asset demo_session (Some ''player-0-1000'') (Some ''AAPL'') 3 1002) = Ok"
    by code_simp
  have q: "0 \<le> held_quantity demo_session (Some ''player-0-1000'') (Some ''AAPL'')"
    by code_simp
  have c: "cash_of demo_session (Some ''player-0-1000'') = 9700"
    "price_of demo_session (Some ''AAPL'') = 150"
    by code_simp+
  from buy_then_sell_same_amount
    [of demo_session "Some ''player-0-1000''" "Some ''AAPL''" 3 1002 1003] ok q
  show ?thesis by (simp add: c)
qed

section \<open>The state poll\<close>

lemma update_prices_fields [simp]:
  "currentRound (update_prices gs rnd) = currentRound gs"
  "maxRounds (update_prices gs rnd) = maxRounds gs"
  "phase (update_prices gs rnd) = phase gs"
  "roundStartTime (update_prices gs rnd) = roundStartTime gs"
  "timeRemaining (update_prices gs rnd) = timeRemaining gs"
  "activeEvent (update_prices gs rnd) = activeEvent gs"
  "sentiment (update_prices gs rnd) = sentiment gs"
  by (simp_all add: update_prices_def Let_def)

lemma py_int_floor: "0 \<le> x \<Longrightarrow> py_int x = \<lfloor>x\<rfloor>"
  by (simp add: py_int_def)

text \<open>
  Claim C2, as stated: the poll sets the time remaining to
  \<open>max 0 (35 - floor (now - roundStartTime))\<close>. The source applies \<^verbatim>\<open>int\<close>, which
  truncates towards zero, so the two differ when the clock reading lies before the
  start of the round by a fraction of a second: with a round started at \<open>1000.5\<close> and a
  reading of \<open>1000\<close>, the poll stores \<open>35\<close> where the floor gives \<open>36\<close>.
\<close>

theorem get_state_truncates:
  "phase (start_game (create_new_game ''default'' 1000) (2001 / 2) 0 1000) = PLAYING
   \<and> roundStartTime (start_game (create_new_game ''default'' 1000) (2001 / 2) 0 1000)
       = Some (2001 / 2)
   \<and> timeRemaining
        (get_state (start_game (create_new_game ''default'' 1000) (2001 / 2) 0 1000)
           1000 1000 (\<lambda>_. 1 / 2)) = 35
   \<and> max 0 (35 - \<lfloor>1000 - (2001 / 2 :: real)\<rfloor>) = 36"
  by code_simp

text \<open>
  Claim C2, amended. In the phase \<open>PLAYING\<close> with the start of the round set (and not
  zero, which Python takes for unset), a poll that reads the clock at \<open>now\<close> sets the
  time remaining to \<open>max 0 (35 - int (now - roundStartTime))\<close>, which is the floor
  formula whenever \<open>now\<close> is not before the start of the round. It runs the price update
  exactly once if that value is below \<open>30\<close> and not at all otherwise. When the value is
  \<open>0\<close> it then either moves to the next round (the round number plus one, the start of
  the round set to \<open>now'\<close>, the second reading of the clock, the time remaining back
  to \<open>35\<close>) if the round number is below the maximum, or else sets the phase to
  \<open>FINISHED\<close> and clears the start of the round.
\<close>

theorem get_state_tick:
  "phase gs = PLAYING \<and> roundStartTime gs = Some t0 \<and> t0 \<noteq> 0 \<longrightarrow>
    (let remaining = max 0 (35 - py_int (now - t0));
         gs1 = gs\<lparr>timeRemaining := remaining\<rparr>;
         gs2 = (if remaining < 30 then update_prices gs1 rnd else gs1)
     in (t0 \<le> now \<longrightarrow> remaining = max 0 (35 - \<lfloor>now - t0\<rfloor>))
        \<and> get_state gs now now' rnd =
            (if remaining = 0 then
               (if currentRound gs < maxRounds gs
                then gs2\<lparr>currentRound := currentRound gs + 1, roundStartTime := Some now',
                        timeRemaining := 35\<rparr>
                else gs2\<lparr>phase := FINISHED, roundStartTime := None\<rparr>)
             else gs2))"
proof (intro impI, elim conjE)
  assume ph: "phase gs = PLAYING" and t0: "roundStartTime gs = Some t0" and nz: "t0 \<noteq> 0"
  have fl: "t0 \<le> now \<longrightarrow> max 0 (35 - py_int (now - t0)) = max 0 (35 - \<lfloor>now - t0\<rfloor>)"
    by (simp add: py_int_floor)
  have obs: "get_state_observe gs now rnd =
      (if max 0 (35 - py_int (now - t0)) < 30
       then update_prices (gs\<lparr>timeRemaining := max 0 (35 - py_int (now - t0))\<rparr>) rnd
       else gs\<lparr>timeRemaining := max 0 (35 - py_int (now - t0))\<rparr>,
       Some (max 0 (35 - py_int (now - t0))))"
    using ph t0 nz by (simp add: get_state_observe_def TOTAL_FRAMES_def Let_def)
  have z: "max 0 (35 - py_int (now - t0)) \<le> 0 \<longleftrightarrow> max 0 (35 - py_int (now - t0)) = 0"
    by auto
  show "let remaining = max 0 (35 - py_int (now - t0));
         gs1 = gs\<lparr>timeRemaining := remaining\<rparr>;
         gs2 = (if remaining < 30 then update_prices gs1 rnd else gs1)
     in (t0 \<le> now \<longrightarrow> remaining = max 0 (35 - \<lfloor>now - t0\<rfloor>))
        \<and> get_state gs now now' rnd =
            (if remaining = 0 then
               (if currentRound gs < maxRounds gs
                then gs2\<lparr>currentRound := currentRound gs + 1, roundStartTime := Some now',
                        timeRemaining := 35\<rparr>
                else gs2\<lparr>phase := FINISHED, roundStartTime := None\<rparr>)
             else gs2)"
    unfolding Let_def get_state_def obs prod.case option.case z
    using fl by (simp add: get_state_advance_def TOTAL_FRAMES_def)
qed

theorem get_state_tick_witness:
  "phase demo_session = PLAYING \<and> roundStartTime demo_session = Some 1000
   \<and> (1000 :: real) \<noteq> 0 \<and> (1000 :: real) \<le> 2071 / 2
   \<and> max 0 (35 - \<lfloor>2071 / 2 - (1000 :: real)\<rfloor>) = 0
   \<and> currentRound demo_session < maxRounds demo_session
   \<and> currentRound (get_state demo_session (2071 / 2) 1036 (\<lambda>_. 1 / 2)) = 2
   \<and> roundStartTime (get_state demo_session (2071 / 2) 1036 (\<lambda>_. 1 / 2)) = Some 1036
   \<and> timeRemaining (get_state demo_session (2071 / 2) 1036 (\<lambda>_. 1 / 2)) = 35"
proof -
  have h: "phase demo_session = PLAYING" "roundStartTime demo_session = Some 1000"
    "currentRound demo_session = 1" "maxRounds demo_session = 5"
    by code_simp+
  have r: "py_int (2071 / 2 - 1000) = 35"
    by (simp add: py_int_def)
  have f: "\<lfloor>2071 / 2 - (1000 :: real)\<rfloor> = 35"
    by simp
  from get_state_tick [of demo_session 1000 "2071 / 2" "\<lambda>_. 1 / 2" 1036] h
  have "get_state demo_session (2071 / 2) 1036 (\<lambda>_. 1 / 2) =
      (update_prices (demo_session\<lparr>timeRemaining := 0\<rparr>) (\<lambda>_. 1 / 2))
        \<lparr>currentRound := 2, roundStartTime := Some 1036, timeRemaining := 35\<rparr>"
    by (simp add: r Let_def)
  then show ?thesis
    using h by (simp add: f)
qed

text \<open>
  Claim C1 says that concurrent polls at the end of a round advance the round once.
  In the source the test \<^verbatim>\<open>time_remaining <= 0\<close> is made on a value computed before
  the lock is taken, and nothing is read again under the lock. With the round at \<open>1\<close>
  and \<open>35\<close> seconds elapsed, two polls that both run their unlocked part before either
  takes the lock both see \<open>0\<close> and both advance: the round is \<open>3\<close>. One poll alone, or
  two polls one after the other, leave it at \<open>2\<close>.
\<close>

theorem get_state_double_advance:
  "phase demo_session = PLAYING
   \<and> currentRound demo_session = 1
   \<and> snd (get_state_observe demo_session 1035 (\<lambda>_. 1 / 2)) = Some 0
   \<and> snd (get_state_observe (fst (get_state_observe demo_session 1035 (\<lambda>_. 1 / 2)))
             1035 (\<lambda>_. 1 / 2)) = Some 0
   \<and> currentRound (get_state demo_session 1035 1035 (\<lambda>_. 1 / 2)) = 2
   \<and> currentRound (get_state (get_state demo_session 1035 1035 (\<lambda>_. 1 / 2))
                      1035 1035 (\<lambda>_. 1 / 2)) = 2
   \<and> currentRound (get_state_interleaved demo_session
                      1035 1035 (\<lambda>_. 1 / 2) 1035 1035 (\<lambda>_. 1 / 2)) = 3"
  by code_simp

section \<open>The results\<close>

lemma player_result_fields:
  "res_playerId (player_result p) = player_id p"
  "res_playerName (player_result p) = player_name p"
  "res_riskScore (player_result p) = riskScore p"
  "finalValue (player_result p) = final_value p"
  "roi (player_result p) = roi_of p"
  "riskAdjustedScore (player_result p) = risk_adjusted p"
  by (simp_all add: player_result_def final_value_def roi_of_def risk_adjusted_def
      STARTING_CASH_def Let_def List.card_set [symmetric])

lemma insort_key_map:
  "insort_key f (g x) (map g xs) = map g (insort_key (\<lambda>y. f (g y)) x xs)"
  by (induction xs) auto

lemma sort_key_map:
  "sort_key f (map g xs) = map g (sort_key (\<lambda>y. f (g y)) xs)"
  by (induction xs) (auto simp: insort_key_map)

lemma sort_results_players:
  "sort_results (map player_result ps) = map player_result (sort_key (\<lambda>p. - risk_adjusted p) ps)"
  by (simp add: sort_results_def sort_key_map player_result_fields)

lemma sorted_descending:
  "sorted_wrt (\<lambda>x y. y \<le> x) (map risk_adjusted (sort_key (\<lambda>p. - risk_adjusted p) ps))"
proof -
  have "sorted (map (\<lambda>p. - risk_adjusted p) (sort_key (\<lambda>p. - risk_adjusted p) ps))"
    by (rule sorted_sort_key)
  then show ?thesis
    by (simp add: sorted_wrt_map)
qed

lemma stable_descending:
  "filter (\<lambda>p. risk_adjusted p = c) (sort_key (\<lambda>p. - risk_adjusted p) ps)
     = filter (\<lambda>p. risk_adjusted p = c) ps"
  using sort_key_stable [of "\<lambda>p. - risk_adjusted p" "- c" ps] by simp

lemma rank_zip:
  "length is = length rs \<Longrightarrow> map rank (map (\<lambda>(i, r). r\<lparr>rank := i + 1\<rparr>) (zip is rs)) = map Suc is"
  by (induction "is" rs rule: list_induct2) auto

lemma rank_assign_ranks: "map rank (assign_ranks rs) = [1..<Suc (length rs)]"
proof -
  have "map rank (assign_ranks rs) = map Suc [0..<0 + length rs]"
    unfolding assign_ranks_def enumerate_eq_zip by (rule rank_zip) simp
  also have "\<dots> = [1..<Suc (length rs)]"
    using map_Suc_upt [of 0 "length rs"] by simp
  finally show ?thesis .
qed

lemma assign_ranks_players:
  "assign_ranks (map player_result ps)
     = map (\<lambda>(i, p). (player_result p)\<lparr>rank := i + 1\<rparr>) (enumerate 0 ps)"
  by (simp add: assign_ranks_def enumerate_eq_zip zip_map2 case_prod_unfold)

text \<open>
  Claim C6. Before the phase \<open>FINISHED\<close> the results fail with \<open>GameNotFinished\<close>. In
  the phase \<open>FINISHED\<close> they are the records of the players, each with the final value,
  return on investment and risk-adjusted score that the specification names, in an
  order \<open>ps\<close> of the players that is a permutation of the join order, descending in
  the risk-adjusted score, and that keeps the join order among players of equal score;
  the record at position \<open>i\<close> (from \<open>0\<close>) has the rank \<open>i + 1\<close>, so the ranks are
  \<open>1\<close> to the number of players.
\<close>

theorem get_results_ranking:
  "(phase gs \<noteq> FINISHED \<longrightarrow> get_results gs = Inl GameNotFinished)
   \<and> (phase gs = FINISHED \<longrightarrow>
        (\<exists>ps. get_results gs
                = Inr (map (\<lambda>(i, p). (player_result p)\<lparr>rank := i + 1\<rparr>) (enumerate 0 ps))
            \<and> mset ps = mset (players gs)
            \<and> sorted_wrt (\<lambda>x y. y \<le> x) (map risk_adjusted ps)
            \<and> (\<forall>c. filter (\<lambda>p. risk_adjusted p = c) ps
                     = filter (\<lambda>p. risk_adjusted p = c) (players gs))
            \<and> (\<forall>p. res_playerId (player_result p) = player_id p
                   \<and> finalValue (player_result p) = final_value p
                   \<and> roi (player_result p) = roi_of p
                   \<and> riskAdjustedScore (player_result p) = risk_adjusted p)))
   \<and> (\<forall>rs. get_results gs = Inr rs \<longrightarrow> map rank rs = [1..<Suc (length (players gs))])"
proof -
  let ?ps = "sort_key (\<lambda>p. - risk_adjusted p) (players gs)"
  have not_ready: "phase gs \<noteq> FINISHED \<longrightarrow> get_results gs = Inl GameNotFinished"
    by (simp add: get_results_def)
  have eq: "get_results gs
      = Inr (map (\<lambda>(i, p). (player_result p)\<lparr>rank := i + 1\<rparr>) (enumerate 0 ?ps))"
    if "phase gs = FINISHED"
    using that by (simp add: get_results_def sort_results_players assign_ranks_players)
  have ranks: "map rank rs = [1..<Suc (length (players gs))]" if "get_results gs = Inr rs" for rs
  proof -
    from that have "rs = assign_ranks (sort_results (map player_result (players gs)))"
      by (simp add: get_results_def split: if_splits)
    then show ?thesis
      by (simp add: rank_assign_ranks sort_results_def)
  qed
  have "mset ?ps = mset (players gs)"
    by simp
  with not_ready eq ranks sorted_descending [of "players gs"] stable_descending [of _ "players gs"]
    player_result_fields
  show ?thesis by blast
qed

theorem get_results_ranking_witness:
  "phase demo_session \<noteq> FINISHED
   \<and> get_results demo_session = Inl GameNotFinished
   \<and> phase finished_session = FINISHED
   \<and> map player_id (players finished_session) = [''player-0-1000'', ''player-1-1000'']
   \<and> (\<exists>rs. get_results finished_session = Inr rs
          \<and> map rank rs = [1..<Suc (length (players finished_session))]
          \<and> map res_playerId rs = [''player-1-1000'', ''player-0-1000'']
          \<and> map riskAdjustedScore rs = [0, - 50])"
proof -
  have playing: "phase demo_session \<noteq> FINISHED"
    by code_simp
  have fin: "phase finished_session = FINISHED"
    by code_simp
  have joined: "map player_id (players finished_session) = [''player-0-1000'', ''player-1-1000'']"
    by code_simp
  have ids: "(case get_results finished_session of Inl _ \<Rightarrow> [] | Inr rs \<Rightarrow> map res_playerId rs)
      = [''player-1-1000'', ''player-0-1000'']"
    by code_simp
  have scores: "(case get_results finished_session of Inl _ \<Rightarrow> [] | Inr rs \<Rightarrow> map riskAdjustedScore rs)
      = [0, - 50]"
    by code_simp
  from get_results_ranking [of demo_session, THEN conjunct1] playing
  have not_ready: "get_results demo_session = Inl GameNotFinished"
    by (rule mp)
  from get_results_ranking [of finished_session, THEN conjunct2, THEN conjunct1] fin
  have "\<exists>rs. get_results finished_session = Inr rs"
    by (elim impE exE conjE) (assumption, rule exI)
  then obtain rs where rs: "get_results finished_session = Inr rs" ..
  from get_results_ranking [of finished_session, THEN conjunct2, THEN conjunct2] rs
  have ranks: "map rank rs = [1..<Suc (length (players finished_session))]"
    by (elim allE impE) assumption
  from ids rs have i: "map res_playerId rs = [''player-1-1000'', ''player-0-1000'']"
    by simp
  from scores rs have s: "map riskAdjustedScore rs = [0, - 50]"
    by simp
  from rs ranks i s
  have "\<exists>rs. get_results finished_session = Inr rs
          \<and> map rank rs = [1..<Suc (length (players finished_session))]
          \<and> map res_playerId rs = [''player-1-1000'', ''player-0-1000'']
          \<and> map riskAdjustedScore rs = [0, - 50]"
    by (intro exI conjI)
  with playing not_ready fin joined show ?thesis
    by (intro conjI)
qed

section \<open>Properties of every reachable session\<close>

text \<open>
  A property that holds of a new game and that every handler preserves holds of every
  session of every reachable registry.
\<close>

lemma all_sessions_empty: "all_sessions P empty_registry"
  by (simp add: all_sessions_def empty_registry_def)

lemma all_sessions_store:
  "all_sessions P reg \<Longrightarrow> P gs \<Longrightarrow> all_sessions P (store reg gid gs)"
  by (simp add: all_sessions_def store_def)

lemma all_sessions_get:
  assumes "all_sessions P reg" and "\<And>g t. P (create_new_game g t)"
  shows "all_sessions P (fst (get_game_state reg gid t))"
    and "P (snd (get_game_state reg gid t))"
  using assms by (auto simp: all_sessions_def get_game_state_def Let_def split: option.splits)

lemma all_sessions_locked:
  assumes "all_sessions P reg" and "\<And>g t. P (create_new_game g t)"
    and "\<And>gs. P gs \<Longrightarrow> P (snd (body gs))"
  shows "all_sessions P (snd (locked reg gid t body))"
proof -
  obtain reg1 gs where g: "get_game_state reg gid t = (reg1, gs)"
    by (cases "get_game_state reg gid t")
  from all_sessions_get [OF assms(1,2), of gid t] g
  have r: "all_sessions P reg1" and s: "P gs" by simp_all
  show ?thesis
    using r assms(3) [OF s]
    by (auto simp: locked_def g case_prod_unfold Let_def intro: all_sessions_store)
qed

lemma respond_snd [simp]: "snd (respond x) = snd x"
  by (cases x) (auto simp: respond_def split: outcome.splits)

lemma reachable_all_sessions:
  assumes r: "reachable reg"
    and init: "\<And>g t. P (create_new_game g t)"
    and join: "\<And>gs n t1 t2. P gs \<Longrightarrow> P (snd (join_game gs n t1 t2))"
    and observe: "\<And>gs now rnd. P gs \<Longrightarrow> P (fst (get_state_observe gs now rnd))"
    and advance: "\<And>gs t. P gs \<Longrightarrow> P (get_state_advance gs t)"
    and start: "\<And>gs t1 k t2. P gs \<Longrightarrow> P (start_game gs t1 k t2)"
    and avatar: "\<And>gs pid x t. P gs \<Longrightarrow> P (select_avatar gs pid x t)"
    and strategy: "\<And>gs pid x t. P gs \<Longrightarrow> P (select_strategy gs pid x t)"
    and buy: "\<And>gs pid aid amount t. P gs \<Longrightarrow> P (snd (buy_asset gs pid aid amount t))"
    and sell: "\<And>gs pid aid amount t. P gs \<Longrightarrow> P (snd (sell_asset gs pid aid amount t))"
    and powerup: "\<And>gs pid x t. P gs \<Longrightarrow> P (snd (use_powerup gs pid x t))"
  shows "all_sessions P reg"
  using r
proof (induction rule: reachable.induct)
  case reachable_empty
  show ?case by (rule all_sessions_empty)
next
  case (reachable_api reg c)
  note IH = reachable_api.IH
  show ?case
  proof (cases c)
    case (Join name gid t0 t_id t_upd)
    show ?thesis
    proof (cases "name = None \<or> name = Some []")
      case True
      then show ?thesis using IH Join by (auto split: option.splits)
    next
      case False
      then obtain n where n: "name = Some n" "n \<noteq> []" by auto
      have "all_sessions P (snd (locked reg gid t0
              (\<lambda>gs. let (pid, gs') = join_game gs n t_id t_upd in (Joined pid, gs'))))"
        by (rule all_sessions_locked [OF IH init]) (simp add: case_prod_unfold Let_def join)
      then show ?thesis using Join n by simp
    qed
  next
    case (GetState gid t0 now now' rnd)
    obtain reg1 gs where g: "get_game_state reg gid t0 = (reg1, gs)"
      by (cases "get_game_state reg gid t0")
    from all_sessions_get [OF IH init, of gid t0] g
    have r1: "all_sessions P reg1" and s: "P gs" by simp_all
    obtain gs2 tr where o: "get_state_observe gs now rnd = (gs2, tr)"
      by (cases "get_state_observe gs now rnd")
    from observe [OF s, of now rnd] o have s2: "P gs2" by simp
    from advance [OF s2] have s3: "P (get_state_advance gs2 now')" .
    show ?thesis
      using GetState g o r1 s2 s3
      by (auto split: option.splits intro: all_sessions_store)
  next
    case (Start gid t0 t1 k t2)
    have "all_sessions P (snd (locked reg gid t0 (\<lambda>gs. (Done, start_game gs t1 k t2))))"
      by (rule all_sessions_locked [OF IH init]) (simp add: start)
    then show ?thesis using Start by simp
  next
    case (SelectAvatar gid pid x t0 now)
    have "all_sessions P (snd (locked reg gid t0 (\<lambda>gs. (Done, select_avatar gs pid x now))))"
      by (rule all_sessions_locked [OF IH init]) (simp add: avatar)
    then show ?thesis using SelectAvatar by simp
  next
    case (SelectStrategy gid pid x t0 now)
    have "all_sessions P (snd (locked reg gid t0 (\<lambda>gs. (Done, select_strategy gs pid x now))))"
      by (rule all_sessions_locked [OF IH init]) (simp add: strategy)
    then show ?thesis using SelectStrategy by simp
  next
    case (Buy gid pid aid amount t0 now)
    have "all_sessions P (snd (locked reg gid t0 (\<lambda>gs. respond (buy_asset gs pid aid amount now))))"
      by (rule all_sessions_locked [OF IH init]) (simp add: buy)
    then show ?thesis using Buy by simp
  next
    case (Sell gid pid aid amount t0 now)
    have "all_sessions P (snd (locked reg gid t0 (\<lambda>gs. respond (sell_asset gs pid aid amount now))))"
      by (rule all_sessions_locked [OF IH init]) (simp add: sell)
    then show ?thesis using Sell by simp
  next
    case (UsePowerUp gid pid x t0 now)
    have "all_sessions P (snd (locked reg gid t0 (\<lambda>gs. respond (use_powerup gs pid x now))))"
      by (rule all_sessions_locked [OF IH init]) (simp add: powerup)
    then show ?thesis using UsePowerUp by simp
  next
    case (Reset gid now)
    then show ?thesis using IH init by (simp add: all_sessions_store)
  next
    case (Results gid t0)
    obtain reg1 gs where g: "get_game_state reg gid t0 = (reg1, gs)"
      by (cases "get_game_state reg gid t0")
    from all_sessions_get [OF IH init, of gid t0] g
    have r1: "all_sessions P reg1" by simp
    show ?thesis
      using Results g r1 by (auto split: sum.splits)
  qed
qed

subsection \<open>The price histories\<close>

lemma update_asset_history:
  "history (update_asset gs r a) =
     (if length (history a) < 50
      then history a @ [currentPrice a * (1 + price_change gs a r)]
      else tl (history a) @ [currentPrice a * (1 + price_change gs a r)])"
  by (cases "history a") (auto simp: update_asset_def Let_def)

lemma update_asset_bounded:
  "length (history a) \<le> 50 \<Longrightarrow> length (history (update_asset gs r a)) \<le> 50"
  by (auto simp: update_asset_history)

lemma update_assets_bounded:
  "\<forall>a\<in>set as. length (history a) \<le> 50
   \<Longrightarrow> \<forall>a\<in>set (update_assets gs rnd as). length (history a) \<le> 50"
  by (induction as arbitrary: rnd) (auto simp: update_asset_bounded)

lemma update_prices_bounded:
  "history_bounded gs \<Longrightarrow> history_bounded (update_prices gs rnd)"
  using update_assets_bounded [of "assets gs" gs rnd]
  by (simp add: history_bounded_def update_prices_def Let_def)

lemma assets_unchanged:
  "assets (snd (join_game gs n t1 t2)) = assets gs"
  "assets (get_state_advance gs t) = assets gs"
  "assets (start_game gs t1 k t2) = assets gs"
  "assets (select_avatar gs pid x t) = assets gs"
  "assets (select_strategy gs pid x t) = assets gs"
  "assets (snd (buy_asset gs pid aid amount t)) = assets gs"
  "assets (snd (sell_asset gs pid aid amount t)) = assets gs"
  "assets (snd (use_powerup gs pid x t)) = assets gs"
  by (auto simp: join_game_def get_state_advance_def start_game_def select_avatar_def
      select_strategy_def buy_asset_def sell_asset_def use_powerup_def Let_def
      split: option.splits)

lemma observe_bounded:
  "history_bounded gs \<Longrightarrow> history_bounded (fst (get_state_observe gs now rnd))"
proof -
  assume b: "history_bounded gs"
  have "history_bounded (gs\<lparr>timeRemaining := x\<rparr>)" for x
    using b by (simp add: history_bounded_def)
  then show ?thesis
    using b by (auto simp: get_state_observe_def Let_def update_prices_bounded split: option.splits)
qed

lemma reachable_history_bounded:
  assumes "reachable reg"
  shows "all_sessions history_bounded reg"
  using assms
proof (rule reachable_all_sessions)
  show "history_bounded (create_new_game g t)" for g t
    by (simp add: history_bounded_def create_new_game_def INITIAL_ASSETS_def)
qed (simp_all add: history_bounded_def assets_unchanged observe_bounded [unfolded history_bounded_def])

subsection \<open>Events and sentiment\<close>

lemma update_first_all:
  "\<forall>x\<in>set xs. Q x \<Longrightarrow> (\<And>x. x \<in> set xs \<Longrightarrow> P x \<Longrightarrow> Q (f x))
   \<Longrightarrow> \<forall>x\<in>set (update_first P f xs). Q x"
  by (induction xs) auto

lemma no_event_fields:
  "no_event gs \<Longrightarrow> activeEvent gs = None"
  "no_event gs \<Longrightarrow> sentiment gs t = 0"
  "no_event gs \<Longrightarrow> p \<in> set (players gs) \<Longrightarrow> clean_log p"
  by (auto simp: no_event_def)

lemma clean_log_trade:
  "no_event gs \<Longrightarrow> clean_log p
   \<Longrightarrow> clean_log (p\<lparr>cash := c, holdings := hs,
         transactionLog := transactionLog p @ [trade_record gs ty a amount tv]\<rparr>)"
  by (auto simp: clean_log_def trade_record_def no_event_def)

lemma clean_log_same:
  "transactionLog p' = transactionLog p \<Longrightarrow> clean_log p \<Longrightarrow> clean_log p'"
  by (simp add: clean_log_def)

lemma no_event_players:
  "no_event gs \<Longrightarrow> \<forall>p\<in>set ps. clean_log p \<Longrightarrow> no_event (gs\<lparr>players := ps\<rparr>)"
  "no_event gs \<Longrightarrow> \<forall>p\<in>set ps. clean_log p \<Longrightarrow> no_event (gs\<lparr>players := ps, lastUpdate := t\<rparr>)"
  by (auto simp: no_event_def)

lemma no_event_replace:
  assumes "no_event gs" and "find (is_player pid) (players gs) = Some p"
    and "clean_log p \<Longrightarrow> clean_log p'"
  shows "no_event (gs\<lparr>players := update_first (is_player pid) (\<lambda>_. p') (players gs)\<rparr>)"
    and "no_event (gs\<lparr>players := update_first (is_player pid) (\<lambda>_. p') (players gs),
                      lastUpdate := t\<rparr>)"
proof -
  have "p \<in> set (players gs)" using assms(2) by (rule find_in_set)
  then have "clean_log p'" using assms(1,3) by (auto simp: no_event_def)
  then have "\<forall>x\<in>set (update_first (is_player pid) (\<lambda>_. p') (players gs)). clean_log x"
    using assms(1) by (intro update_first_all) (auto simp: no_event_def)
  then show "no_event (gs\<lparr>players := update_first (is_player pid) (\<lambda>_. p') (players gs)\<rparr>)"
    and "no_event (gs\<lparr>players := update_first (is_player pid) (\<lambda>_. p') (players gs),
                      lastUpdate := t\<rparr>)"
    using assms(1) by (auto intro: no_event_players)
qed

lemma no_event_update:
  assumes "no_event gs" and "\<And>p. transactionLog (f p) = transactionLog p"
  shows "no_event (gs\<lparr>players := update_first P f (players gs), lastUpdate := t\<rparr>)"
proof -
  have "\<forall>x\<in>set (update_first P f (players gs)). clean_log x"
    using assms by (intro update_first_all) (auto simp: no_event_def clean_log_def)
  then show ?thesis using assms(1) by (auto intro: no_event_players)
qed

lemma no_event_buy: "no_event gs \<Longrightarrow> no_event (snd (buy_asset gs pid aid amount t))"
  unfolding buy_asset_def Let_def
  by (auto split: option.splits
      intro!: no_event_replace clean_log_trade [where c = "cash p - x" for p x]
      elim: clean_log_same [rotated])

lemma no_event_sell: "no_event gs \<Longrightarrow> no_event (snd (sell_asset gs pid aid amount t))"
  unfolding sell_asset_def Let_def
  by (auto split: option.splits intro!: no_event_replace clean_log_trade)

lemma no_event_powerup: "no_event gs \<Longrightarrow> no_event (snd (use_powerup gs pid x t))"
  unfolding use_powerup_def Let_def
  by (auto split: option.splits intro!: no_event_replace elim: clean_log_same [rotated])

lemma no_event_select:
  "no_event gs \<Longrightarrow> no_event (select_avatar gs pid x t)"
  "no_event gs \<Longrightarrow> no_event (select_strategy gs pid x t)"
  by (auto simp: select_avatar_def select_strategy_def split: option.splits
      intro!: no_event_update)

lemma no_event_join: "no_event gs \<Longrightarrow> no_event (snd (join_game gs n t1 t2))"
  by (auto simp: join_game_def no_event_def Let_def clean_log_def create_player_def
      split: option.splits)

lemma no_event_start: "no_event gs \<Longrightarrow> no_event (start_game gs t1 k t2)"
  by (auto simp: start_game_def no_event_def)

lemma no_event_advance: "no_event gs \<Longrightarrow> no_event (get_state_advance gs t)"
  by (auto simp: get_state_advance_def no_event_def)

lemma clean_log_revalue: "clean_log (revalue_player as p) = clean_log p"
  by (simp add: revalue_player_def clean_log_def Let_def)

lemma no_event_update_prices: "no_event gs \<Longrightarrow> no_event (update_prices gs rnd)"
  by (auto simp: no_event_def update_prices_def Let_def clean_log_revalue)

lemma no_event_observe: "no_event gs \<Longrightarrow> no_event (fst (get_state_observe gs now rnd))"
proof -
  assume n: "no_event gs"
  then have "no_event (gs\<lparr>timeRemaining := x\<rparr>)" for x
    by (simp add: no_event_def)
  then show ?thesis
    using n by (auto simp: get_state_observe_def Let_def no_event_update_prices split: option.splits)
qed

lemma reachable_no_event:
  assumes "reachable reg"
  shows "all_sessions no_event reg"
  using assms
proof (rule reachable_all_sessions)
  show "no_event (create_new_game g t)" for g t
    by (simp add: no_event_def create_new_game_def)
qed (simp_all add: no_event_join no_event_observe no_event_advance no_event_start
      no_event_select no_event_buy no_event_sell no_event_powerup)

lemma no_event_terms:
  assumes "no_event gs"
  shows "event_impact gs a = 0" and "vol_multiplier gs = 1" and "sentiment_drift gs a = 0"
    and "price_change gs a r = (r - 5 / 10) * (15 / 1000) * baseVolatility a"
  using assms
  by (simp_all add: no_event_def event_impact_def vol_multiplier_def sentiment_drift_def
      price_change_def random_movement_def)


lemma finished_registry_session:
  "reachable finished_registry"
  "game_states finished_registry ''default'' = Some finished_session"
proof -
  show "reachable finished_registry"
    unfolding finished_registry_def by (rule reachable_run)
  have "(case game_states finished_registry ''default'' of None \<Rightarrow> False | Some _ \<Rightarrow> True)"
    by code_simp
  then show "game_states finished_registry ''default'' = Some finished_session"
    unfolding finished_session_def by (cases "game_states finished_registry ''default''") simp_all
qed


text \<open>
  Claim C8. In every session of a reachable registry the price history of every asset
  has at most \<open>50\<close> entries; the price update keeps that bound whatever the state it
  starts from; and on one asset it appends the new price, dropping the oldest entry
  once the history holds \<open>50\<close>.
\<close>

theorem history_never_exceeds_50:
  "(reachable reg \<and> game_states reg gid = Some gs \<and> a \<in> set (assets gs)
      \<longrightarrow> length (history a) \<le> 50)
   \<and> ((\<forall>a\<in>set (assets gs). length (history a) \<le> 50)
      \<longrightarrow> (\<forall>a\<in>set (assets (update_prices gs rnd)). length (history a) \<le> 50))
   \<and> history (update_asset gs r a) =
       (if length (history a) < 50
        then history a @ [currentPrice (update_asset gs r a)]
        else tl (history a) @ [currentPrice (update_asset gs r a)])"
proof -
  have "length (history a) \<le> 50"
    if "reachable reg" "game_states reg gid = Some gs" "a \<in> set (assets gs)"
    using reachable_history_bounded [OF that(1)] that(2,3)
    by (auto simp: all_sessions_def history_bounded_def)
  moreover have "(\<forall>a\<in>set (assets gs). length (history a) \<le> 50)
      \<longrightarrow> (\<forall>a\<in>set (assets (update_prices gs rnd)). length (history a) \<le> 50)"
    using update_prices_bounded [of gs rnd] by (simp add: history_bounded_def)
  moreover have "currentPrice (update_asset gs r a) = currentPrice a * (1 + price_change gs a r)"
    by (simp add: update_asset_def Let_def)
  ultimately show ?thesis
    by (simp add: update_asset_history)
qed


theorem history_never_exceeds_50_witness:
  "reachable finished_registry
   \<and> game_states finished_registry ''default'' = Some finished_session
   \<and> map (\<lambda>a. length (history a)) (assets finished_session) = [6, 6, 6, 6]
   \<and> list_all (\<lambda>a. length (history a) \<le> 50) (assets finished_session)
   \<and> list_all (\<lambda>a. length (history a) \<le> 50)
        (assets (update_prices finished_session (\<lambda>_. 1 / 2)))
   \<and> length (history full_asset) = 50
   \<and> history (update_asset finished_session (1 / 2) full_asset)
       = tl (history full_asset) @ [currentPrice (update_asset finished_session (1 / 2) full_asset)]
   \<and> length (history (update_asset finished_session (1 / 2) full_asset)) = 50"
proof -
  note r = finished_registry_session
  have n: "map (\<lambda>a. length (history a)) (assets finished_session) = [6, 6, 6, 6]"
    by code_simp
  have f: "length (history full_asset) = 50"
    by (simp add: full_asset_def)
  have b: "\<forall>a\<in>set (assets finished_session). length (history a) \<le> 50"
    using history_never_exceeds_50 [of finished_registry "''default''" finished_session, THEN conjunct1] r
    by simp
  from history_never_exceeds_50
     [of _ _ finished_session _ "\<lambda>_. 1 / 2", THEN conjunct2, THEN conjunct1] b
  have u: "\<forall>a\<in>set (assets (update_prices finished_session (\<lambda>_. 1 / 2))). length (history a) \<le> 50"
    by (rule mp)
  from history_never_exceeds_50
     [of _ _ finished_session full_asset _ "1 / 2", THEN conjunct2, THEN conjunct2] f
  have h: "history (update_asset finished_session (1 / 2) full_asset)
       = tl (history full_asset) @ [currentPrice (update_asset finished_session (1 / 2) full_asset)]"
    by simp
  then have l: "length (history (update_asset finished_session (1 / 2) full_asset)) = 50"
    using f by simp
  from r n b u f h l show ?thesis
    by (simp add: list_all_iff)
qed


text \<open>
  Claim C9. In every session of a reachable registry there is no active event and every
  sentiment is \<open>0\<close>, so the event and sentiment terms of the price change vanish and
  only the random movement remains; and every transaction record of every player has no
  event and the sentiment \<open>0\<close>.
\<close>

theorem no_event_or_sentiment:
  "reachable reg \<and> game_states reg gid = Some gs
   \<longrightarrow> activeEvent gs = None
       \<and> (\<forall>t. sentiment gs t = 0)
       \<and> (\<forall>a r. event_impact gs a = 0 \<and> sentiment_drift gs a = 0
              \<and> price_change gs a r = (r - 5 / 10) * (15 / 1000) * baseVolatility a)
       \<and> (\<forall>p\<in>set (players gs). \<forall>tx\<in>set (transactionLog p).
              eventActive tx = None \<and> sentimentAtTime tx = 0)"
proof (intro impI, elim conjE)
  assume "reachable reg" and "game_states reg gid = Some gs"
  then have n: "no_event gs"
    using reachable_no_event by (auto simp: all_sessions_def)
  then show "activeEvent gs = None
       \<and> (\<forall>t. sentiment gs t = 0)
       \<and> (\<forall>a r. event_impact gs a = 0 \<and> sentiment_drift gs a = 0
              \<and> price_change gs a r = (r - 5 / 10) * (15 / 1000) * baseVolatility a)
       \<and> (\<forall>p\<in>set (players gs). \<forall>tx\<in>set (transactionLog p).
              eventActive tx = None \<and> sentimentAtTime tx = 0)"
    using no_event_terms [OF n] by (auto simp: no_event_def clean_log_def)
qed

theorem no_event_or_sentiment_witness:
  "reachable finished_registry
   \<and> game_states finished_registry ''default'' = Some finished_session
   \<and> activeEvent finished_session = None
   \<and> map (sentiment finished_session) [STOCK, CRYPTO, BOND, ETF] = [0, 0, 0, 0]
   \<and> map (\<lambda>p. length (transactionLog p)) (players finished_session) = [1, 0]
   \<and> list_all (\<lambda>p. list_all (\<lambda>tx. eventActive tx = None \<and> sentimentAtTime tx = 0)
                      (transactionLog p)) (players finished_session)
   \<and> event_impact finished_session full_asset = 0
   \<and> sentiment_drift finished_session full_asset = 0"
proof -
  note r = finished_registry_session
  have n: "map (\<lambda>p. length (transactionLog p)) (players finished_session) = [1, 0]"
    by code_simp
  from no_event_or_sentiment [of finished_registry "''default''" finished_session] r
  have c: "activeEvent finished_session = None
       \<and> (\<forall>t. sentiment finished_session t = 0)
       \<and> (\<forall>a r. event_impact finished_session a = 0 \<and> sentiment_drift finished_session a = 0
              \<and> price_change finished_session a r = (r - 5 / 10) * (15 / 1000) * baseVolatility a)
       \<and> (\<forall>p\<in>set (players finished_session). \<forall>tx\<in>set (transactionLog p).
              eventActive tx = None \<and> sentimentAtTime tx = 0)"
    by simp
  from c r n show ?thesis
    by (simp add: list_all_iff)
qed

end
